theory Spec2Isabelle
  imports Main "HOL-Library.Word" "HOL-Library.Log_Nat"
begin

unbundle bit_operations_syntax

section \<open>JavaScript values\<close>

text \<open>
  The value of a property that the code reads as a string: a string, or \<^verbatim>\<open>undefined\<close>.
\<close>

datatype js_value = Undefined | Str string

text \<open>
  What a \<^verbatim>\<open>catch (e)\<close> clause catches. A handler may throw any value. \<^verbatim>\<open>null\<close> and
  \<^verbatim>\<open>undefined\<close> have no properties; of every other value the model keeps the two
  properties the dispatcher reads, \<^verbatim>\<open>e.message\<close> and \<^verbatim>\<open>e.stack\<close>. Both are strings on an
  Error object and \<^verbatim>\<open>undefined\<close> on a thrown string or number; a property of another
  type is not modelled.
\<close>

datatype thrown = ThrownNullish | Thrown js_value js_value

text \<open>
  The TypeError the JavaScript engine raises when a property is read from \<^verbatim>\<open>undefined\<close>
  or \<^verbatim>\<open>null\<close>. The wording is the engine's; the stack starts with the line given here, the
  frames that follow are left out.
\<close>

definition cannotReadProperty :: "string \<Rightarrow> thrown" where
  "cannotReadProperty p =
     (let m = ''Cannot read property '' @ [CHR 0x27] @ p @ [CHR 0x27] @ '' of undefined''
      in Thrown (Str m) (Str (''TypeError: '' @ m)))"

text \<open>The TypeError raised when a property of \<^verbatim>\<open>undefined\<close> is assigned.\<close>

definition cannotSetProperty :: "string \<Rightarrow> thrown" where
  "cannotSetProperty p =
     (let m = ''Cannot set property '' @ [CHR 0x27] @ p @ [CHR 0x27] @ '' of undefined''
      in Thrown (Str m) (Str (''TypeError: '' @ m)))"

text \<open>The TypeError raised when a value that is no function is called.\<close>

definition notAFunction :: "string \<Rightarrow> thrown" where
  "notAFunction p =
     (let m = p @ '' is not a function''
      in Thrown (Str m) (Str (''TypeError: '' @ m)))"

text \<open>
  An object that is used as a dictionary, such as the variables of an error message: its
  own properties, and whether its prototype is \<^verbatim>\<open>Object.prototype\<close> (as for an object
  literal or a parsed JSON object) or \<^verbatim>\<open>null\<close>.
\<close>

record js_object =
  own :: "string \<rightharpoonup> js_value"
  inheritsObjectPrototype :: bool

text \<open>An object literal with the given properties.\<close>

definition objectLiteral :: "(string \<rightharpoonup> js_value) \<Rightarrow> js_object" where
  "objectLiteral props = \<lparr>own = props, inheritsObjectPrototype = True\<rparr>"

text \<open>
  The names of the properties of \<^verbatim>\<open>Object.prototype\<close>. Read through a plain object, each of
  them is a function or an object, hence truthy.
\<close>

definition objectPrototypeKeys :: "string list" where
  "objectPrototypeKeys =
     [''constructor'', ''hasOwnProperty'', ''isPrototypeOf'', ''propertyIsEnumerable'',
      ''toLocaleString'', ''toString'', ''valueOf'', ''__defineGetter__'',
      ''__defineSetter__'', ''__lookupGetter__'', ''__lookupSetter__'', ''__proto__'']"

text \<open>
  Whether \<^verbatim>\<open>args[paramName]\<close> is truthy: an own property decides by its value (the empty
  string and \<^verbatim>\<open>undefined\<close> are falsy); a name the object does not own is looked up in the
  prototype.
\<close>

definition truthyProperty :: "js_object \<Rightarrow> string \<Rightarrow> bool" where
  "truthyProperty obj name =
     (case own obj name of
        Some (Str s) \<Rightarrow> s \<noteq> []
      | Some Undefined \<Rightarrow> False
      | None \<Rightarrow> inheritsObjectPrototype obj \<and> name \<in> set objectPrototypeKeys)"

text \<open>
  The call \<^verbatim>\<open>args.hasOwnProperty(paramName)\<close>. The method is looked up on the object
  itself: an own property of that name shadows the inherited method and is no function,
  and an object without prototype has no such method; the call throws in both cases.
\<close>

definition hasOwnProperty :: "js_object \<Rightarrow> string \<Rightarrow> thrown + bool" where
  "hasOwnProperty obj name =
     (if own obj ''hasOwnProperty'' \<noteq> None \<or> \<not> inheritsObjectPrototype obj
      then Inl (notAFunction ''args.hasOwnProperty'')
      else Inr (own obj name \<noteq> None))"

section \<open>Error formatter\<close>

text \<open>
  \<^verbatim>\<open>format.replace(/{([^}]+)}/g, fn)\<close>: the template is scanned from left to right. A
  match starts at an opening brace that is followed by at least one character other than
  a closing brace and then by a closing brace; the callback \<open>fn\<close> gets the whole match
  and the captured name, its result replaces the match, and the scan goes on behind the
  closing brace. Any other character is copied. An exception of the callback ends the
  replacement.
\<close>

function replace_formatPIIRegexp ::
  "(string \<Rightarrow> string \<Rightarrow> thrown + string) \<Rightarrow> string \<Rightarrow> thrown + string" where
  "replace_formatPIIRegexp fn [] = Inr []"
| "replace_formatPIIRegexp fn (c # cs) =
     (if c = CHR ''{'' \<and> takeWhile (\<lambda>x. x \<noteq> CHR ''}'') cs \<noteq> []
         \<and> dropWhile (\<lambda>x. x \<noteq> CHR ''}'') cs \<noteq> []
      then
        (case fn (c # takeWhile (\<lambda>x. x \<noteq> CHR ''}'') cs @ ''}'')
                 (takeWhile (\<lambda>x. x \<noteq> CHR ''}'') cs) of
           Inl e \<Rightarrow> Inl e
         | Inr r \<Rightarrow>
             (case replace_formatPIIRegexp fn (tl (dropWhile (\<lambda>x. x \<noteq> CHR ''}'') cs)) of
                Inl e \<Rightarrow> Inl e
              | Inr out \<Rightarrow> Inr (r @ out)))
      else
        (case replace_formatPIIRegexp fn cs of
           Inl e \<Rightarrow> Inl e
         | Inr out \<Rightarrow> Inr (c # out)))"
  by pat_completeness auto
termination
proof (relation "measure (\<lambda>(fn, s). length s)")
  show "wf (measure (\<lambda>(fn :: string \<Rightarrow> string \<Rightarrow> thrown + string, s :: string). length s))"
    by simp
next
  fix fn :: "string \<Rightarrow> string \<Rightarrow> thrown + string" and c :: char and cs :: string
  have "length (tl (dropWhile (\<lambda>x. x \<noteq> CHR ''}'') cs)) \<le> length cs"
    using length_dropWhile_le [of "\<lambda>x. x \<noteq> CHR ''}''" cs] by simp
  then show "((fn, tl (dropWhile (\<lambda>x. x \<noteq> CHR ''}'') cs)), fn, c # cs)
               \<in> measure (\<lambda>(fn, s). length s)"
    by simp
next
  fix fn :: "string \<Rightarrow> string \<Rightarrow> thrown + string" and c :: char and cs :: string
  show "((fn, cs), fn, c # cs) \<in> measure (\<lambda>(fn, s). length s)"
    by simp
qed

text \<open>
  The callback of \<^verbatim>\<open>formatPII\<close>. \<open>args\<close> is the variables object, \<open>None\<close> when it is
  \<^verbatim>\<open>undefined\<close> or \<^verbatim>\<open>null\<close>; reading a property from it then raises.
  \<^verbatim>\<open>args[paramName] && args.hasOwnProperty(paramName)\<close> first tests the property for
  truthiness and only then calls the method; where both hold the property is an own one
  and its value, a non-empty string, is the replacement.
\<close>

definition formatPII_callback ::
  "bool \<Rightarrow> js_object option \<Rightarrow> string \<Rightarrow> string \<Rightarrow> thrown + string" where
  "formatPII_callback excludePII args match paramName =
     (if excludePII \<and> length paramName > 0 \<and> paramName ! 0 \<noteq> CHR ''_'' then Inr match
      else
        (case args of
           None \<Rightarrow> Inl (cannotReadProperty paramName)
         | Some obj \<Rightarrow>
             if \<not> truthyProperty obj paramName then Inr match
             else
               (case hasOwnProperty obj paramName of
                  Inl e \<Rightarrow> Inl e
                | Inr False \<Rightarrow> Inr match
                | Inr True \<Rightarrow>
                    (case own obj paramName of
                       Some (Str s) \<Rightarrow> Inr s
                     | _ \<Rightarrow> Inr match))))"

text \<open>
  \<^verbatim>\<open>formatPII(format, excludePII, args)\<close>. The format is \<open>None\<close> when the caller passed
  \<^verbatim>\<open>undefined\<close>, as \<^verbatim>\<open>sendErrorResponse\<close> does for a numeric code without a format.
\<close>

definition formatPII ::
  "string option \<Rightarrow> bool \<Rightarrow> js_object option \<Rightarrow> thrown + string" where
  "formatPII format excludePII args =
     (case format of
        None \<Rightarrow> Inl (cannotReadProperty ''replace'')
      | Some f \<Rightarrow> replace_formatPIIRegexp (formatPII_callback excludePII args) f)"


section \<open>Message model\<close>

text \<open>
  The protocol's error message (\<^verbatim>\<open>DebugProtocol.Message\<close>). A property that is not set
  is \<open>None\<close>. \<^verbatim>\<open>sendErrorResponse\<close> stores its optional \<^verbatim>\<open>format\<close> parameter in the
  message, so the format may be missing too.
\<close>

record error_message =
  id' :: int
  format :: "string option"
  variables :: "js_object option"
  showUser :: "bool option"
  sendTelemetry :: "bool option"

text \<open>
  The body of a response, as far as \<^verbatim>\<open>debugSession.ts\<close> writes it: the error of an error
  response and the six capabilities of the default \<^verbatim>\<open>initialize\<close> handler.
\<close>

record body =
  error :: "error_message option"
  supportsConditionalBreakpoints :: "bool option"
  supportsFunctionBreakpoints :: "bool option"
  supportsConfigurationDoneRequest :: "bool option"
  supportsEvaluateForHovers :: "bool option"
  supportsStepBack :: "bool option"
  supportsSetVariable :: "bool option"

text \<open>The object literal \<^verbatim>\<open>{ }\<close>.\<close>

definition empty_body :: body where
  "empty_body =
     \<lparr>error = None, supportsConditionalBreakpoints = None,
      supportsFunctionBreakpoints = None, supportsConfigurationDoneRequest = None,
      supportsEvaluateForHovers = None, supportsStepBack = None,
      supportsSetVariable = None\<rparr>"

record response =
  request_seq :: int
  success :: bool
  command :: string
  message :: "string option"
  body :: "body option"

text \<open>
  The arguments of a request, as far as the dispatcher reads them: the three properties
  of the \<^verbatim>\<open>initialize\<close> arguments. \<open>linesStartAt1\<close> and \<open>columnsStartAt1\<close> are \<open>Some b\<close>
  when \<^verbatim>\<open>typeof\<close> gives \<^verbatim>\<open>'boolean'\<close>, \<open>pathFormat\<close> is \<open>Some s\<close> when it is a string.
\<close>

record arguments =
  linesStartAt1 :: "bool option"
  columnsStartAt1 :: "bool option"
  pathFormat :: "string option"

text \<open>A request; \<open>req_arguments\<close> is \<open>None\<close> when the request has no arguments object.\<close>

record request =
  seq :: int
  req_command :: string
  req_arguments :: "arguments option"

text \<open>
  Modelled from the spec: the constructor \<^verbatim>\<open>new Response(request)\<close> of
  \<^verbatim>\<open>messages.ts\<close>, which is not among the sources. The spec has it build a response
  shell with the request's sequence number and command, and \<open>success\<close> defaulted to true.
\<close>

definition newResponse :: "request \<Rightarrow> response" where
  "newResponse request =
     \<lparr>request_seq = seq request, success = True, command = req_command request,
      message = None, body = None\<rparr>"

section \<open>Session state\<close>

text \<open>
  The fields of \<^verbatim>\<open>DebugSession\<close>, the responses handed to the transport so far
  (\<open>sent\<close>, oldest first) and whether \<^verbatim>\<open>shutdown\<close> has scheduled the exit of the process.
\<close>

record session =
  debuggerLinesStartAt1 :: bool
  debuggerColumnsStartAt1 :: bool
  debuggerPathsAreURIs :: bool
  clientLinesStartAt1 :: bool
  clientColumnsStartAt1 :: bool
  clientPathsAreURIs :: bool
  isServer :: bool
  sent :: "response list"
  exitScheduled :: bool

text \<open>
  The constructor; an argument is \<open>Some b\<close> when \<^verbatim>\<open>typeof\<close> gives \<^verbatim>\<open>'boolean'\<close>.
\<close>

definition newDebugSession :: "bool option \<Rightarrow> bool option \<Rightarrow> session" where
  "newDebugSession obsolete_debuggerLinesAndColumnsStartAt1 obsolete_isServer =
     (let linesAndColumnsStartAt1 =
            (case obsolete_debuggerLinesAndColumnsStartAt1 of Some b \<Rightarrow> b | None \<Rightarrow> False)
      in \<lparr>debuggerLinesStartAt1 = linesAndColumnsStartAt1,
          debuggerColumnsStartAt1 = linesAndColumnsStartAt1,
          debuggerPathsAreURIs = False,
          clientLinesStartAt1 = True,
          clientColumnsStartAt1 = True,
          clientPathsAreURIs = False,
          isServer = (case obsolete_isServer of Some b \<Rightarrow> b | None \<Rightarrow> False),
          sent = [],
          exitScheduled = False\<rparr>)"

definition setDebuggerPathFormat :: "string \<Rightarrow> session \<Rightarrow> session" where
  "setDebuggerPathFormat fmt st = st\<lparr>debuggerPathsAreURIs := (fmt \<noteq> ''path'')\<rparr>"

definition setDebuggerLinesStartAt1 :: "bool \<Rightarrow> session \<Rightarrow> session" where
  "setDebuggerLinesStartAt1 enable st = st\<lparr>debuggerLinesStartAt1 := enable\<rparr>"

definition setDebuggerColumnsStartAt1 :: "bool \<Rightarrow> session \<Rightarrow> session" where
  "setDebuggerColumnsStartAt1 enable st = st\<lparr>debuggerColumnsStartAt1 := enable\<rparr>"

definition setRunAsServer :: "bool \<Rightarrow> session \<Rightarrow> session" where
  "setRunAsServer enable st = st\<lparr>isServer := enable\<rparr>"

text \<open>
  \<^verbatim>\<open>shutdown\<close>: in server mode only a line on the console, otherwise the exit of the
  process is scheduled.
\<close>

definition shutdown :: "session \<Rightarrow> session" where
  "shutdown st = (if isServer st then st else st\<lparr>exitScheduled := True\<rparr>)"

text \<open>
  Modelled from the spec: \<^verbatim>\<open>sendResponse\<close> of the transport (\<^verbatim>\<open>ProtocolServer\<close> in
  \<^verbatim>\<open>protocol.ts\<close>), which is not among the sources. The spec has the transport accept a
  response object and serialize it for transmission; the model appends the response, as
  it is at that moment, to what was sent.
\<close>

definition sendResponse :: "response \<Rightarrow> session \<Rightarrow> session" where
  "sendResponse response st = st\<lparr>sent := sent st @ [response]\<rparr>"

section \<open>Error responses\<close>

text \<open>
  A call either returns or throws; in both cases the objects it has mutated keep their new
  state, which the outcome carries.
\<close>

datatype 'a outcome = Returned 'a | Threw thrown 'a

text \<open>The enum \<^verbatim>\<open>ErrorDestination\<close>, whose members are combined as a bitmask.\<close>

definition User :: int where
  "User = 1"

definition Telemetry :: int where
  "Telemetry = 2"

datatype code_or_message = Code int | Msg error_message

text \<open>
  The message \<^verbatim>\<open>msg\<close> that \<^verbatim>\<open>sendErrorResponse\<close> starts with: built from a numeric code,
  or the message that was passed. \<open>vars\<close> is \<open>None\<close> for a falsy \<^verbatim>\<open>variables\<close>
  argument, \<open>dest\<close> is \<open>None\<close> when the argument is left out and the default
  \<^verbatim>\<open>ErrorDestination.User\<close> applies.
\<close>

definition sendErrorResponse_msg ::
  "code_or_message \<Rightarrow> string option \<Rightarrow> js_object option \<Rightarrow> int option \<Rightarrow>
   error_message" where
  "sendErrorResponse_msg codeOrMessage fmt vars dest =
     (case codeOrMessage of
        Code c \<Rightarrow>
          (let d = (case dest of None \<Rightarrow> User | Some x \<Rightarrow> x)
           in \<lparr>id' = c, format = fmt, variables = vars,
               showUser = (if d AND User \<noteq> 0 then Some True else None),
               sendTelemetry = (if d AND Telemetry \<noteq> 0 then Some True else None)\<rparr>)
      | Msg m \<Rightarrow> m)"

text \<open>
  \<^verbatim>\<open>sendErrorResponse(response, codeOrMessage, format, variables, dest)\<close>. The response
  object is mutated in place, so it is returned with the session. \<^verbatim>\<open>success\<close> is
  assigned before \<^verbatim>\<open>formatPII\<close> runs, so it is already false when that call throws.
\<close>

definition sendErrorResponse ::
  "response \<Rightarrow> code_or_message \<Rightarrow> string option \<Rightarrow> js_object option \<Rightarrow>
   int option \<Rightarrow> session \<Rightarrow> (response \<times> session) outcome" where
  "sendErrorResponse response codeOrMessage fmt vars dest st =
     (let msg = sendErrorResponse_msg codeOrMessage fmt vars dest;
          response1 = response\<lparr>success := False\<rparr>
      in case formatPII (format msg) True (variables msg) of
           Inl e \<Rightarrow> Threw e (response1, st)
         | Inr rendered \<Rightarrow>
             (let response2 = response1\<lparr>message := Some rendered\<rparr>;
                  b = (case body response2 of None \<Rightarrow> empty_body | Some b \<Rightarrow> b);
                  response3 = response2\<lparr>body := Some (b\<lparr>error := Some msg\<rparr>)\<rparr>
              in Returned (response3, sendResponse response3 st)))"

section \<open>Request handlers\<close>

text \<open>
  The request handlers are protected methods that a debug adapter overrides. A handler
  gets the response object, the arguments and the session; it may mutate the response,
  change the session (send responses, for one) and return or throw.
\<close>

type_synonym handler =
  "response \<Rightarrow> arguments option \<Rightarrow> session \<Rightarrow> (response \<times> session) outcome"

record handlers =
  initializeRequest :: "response \<Rightarrow> arguments \<Rightarrow> session \<Rightarrow> (response \<times> session) outcome"
  launchRequest :: handler
  attachRequest :: handler
  disconnectRequest :: handler
  setBreakPointsRequest :: handler
  setFunctionBreakPointsRequest :: handler
  setExceptionBreakPointsRequest :: handler
  configurationDoneRequest :: handler
  continueRequest :: handler
  nextRequest :: handler
  stepInRequest :: handler
  stepOutRequest :: handler
  stepBackRequest :: handler
  pauseRequest :: handler
  stackTraceRequest :: handler
  scopesRequest :: handler
  variablesRequest :: handler
  setVariableRequest :: handler
  sourceRequest :: handler
  threadsRequest :: "response \<Rightarrow> session \<Rightarrow> (response \<times> session) outcome"
  evaluateRequest :: handler
  customRequest :: "string \<Rightarrow> handler"

text \<open>
  The implementations of \<^verbatim>\<open>DebugSession\<close> itself. The dispatcher has set
  \<^verbatim>\<open>response.body = {}\<close> before it calls the \<^verbatim>\<open>initialize\<close> handler; should the body be
  missing, the first assignment reads a property of \<^verbatim>\<open>undefined\<close> and throws.
\<close>

definition DebugSession_initializeRequest ::
  "response \<Rightarrow> arguments \<Rightarrow> session \<Rightarrow> (response \<times> session) outcome" where
  "DebugSession_initializeRequest response args st =
     (case body response of
        None \<Rightarrow> Threw (cannotSetProperty ''supportsConditionalBreakpoints'') (response, st)
      | Some b \<Rightarrow>
          (let response1 = response\<lparr>body := Some (b
                 \<lparr>supportsConditionalBreakpoints := Some False,
                  supportsFunctionBreakpoints := Some False,
                  supportsConfigurationDoneRequest := Some True,
                  supportsEvaluateForHovers := Some False,
                  supportsStepBack := Some False,
                  supportsSetVariable := Some False\<rparr>)\<rparr>
           in Returned (response1, sendResponse response1 st)))"

definition DebugSession_disconnectRequest :: handler where
  "DebugSession_disconnectRequest response args st =
     Returned (response, shutdown (sendResponse response st))"

definition DebugSession_launchRequest :: handler where
  "DebugSession_launchRequest response args st = Returned (response, sendResponse response st)"

definition DebugSession_attachRequest :: handler where
  "DebugSession_attachRequest response args st = Returned (response, sendResponse response st)"

definition DebugSession_setBreakPointsRequest :: handler where
  "DebugSession_setBreakPointsRequest response args st = Returned (response, sendResponse response st)"

definition DebugSession_setFunctionBreakPointsRequest :: handler where
  "DebugSession_setFunctionBreakPointsRequest response args st = Returned (response, sendResponse response st)"

definition DebugSession_setExceptionBreakPointsRequest :: handler where
  "DebugSession_setExceptionBreakPointsRequest response args st = Returned (response, sendResponse response st)"

definition DebugSession_configurationDoneRequest :: handler where
  "DebugSession_configurationDoneRequest response args st = Returned (response, sendResponse response st)"

definition DebugSession_continueRequest :: handler where
  "DebugSession_continueRequest response args st = Returned (response, sendResponse response st)"

definition DebugSession_nextRequest :: handler where
  "DebugSession_nextRequest response args st = Returned (response, sendResponse response st)"

definition DebugSession_stepInRequest :: handler where
  "DebugSession_stepInRequest response args st = Returned (response, sendResponse response st)"

definition DebugSession_stepOutRequest :: handler where
  "DebugSession_stepOutRequest response args st = Returned (response, sendResponse response st)"

definition DebugSession_stepBackRequest :: handler where
  "DebugSession_stepBackRequest response args st = Returned (response, sendResponse response st)"

definition DebugSession_pauseRequest :: handler where
  "DebugSession_pauseRequest response args st = Returned (response, sendResponse response st)"

definition DebugSession_sourceRequest :: handler where
  "DebugSession_sourceRequest response args st = Returned (response, sendResponse response st)"

definition DebugSession_stackTraceRequest :: handler where
  "DebugSession_stackTraceRequest response args st = Returned (response, sendResponse response st)"

definition DebugSession_scopesRequest :: handler where
  "DebugSession_scopesRequest response args st = Returned (response, sendResponse response st)"

definition DebugSession_variablesRequest :: handler where
  "DebugSession_variablesRequest response args st = Returned (response, sendResponse response st)"

definition DebugSession_setVariableRequest :: handler where
  "DebugSession_setVariableRequest response args st = Returned (response, sendResponse response st)"

definition DebugSession_evaluateRequest :: handler where
  "DebugSession_evaluateRequest response args st = Returned (response, sendResponse response st)"

definition DebugSession_threadsRequest ::
  "response \<Rightarrow> session \<Rightarrow> (response \<times> session) outcome" where
  "DebugSession_threadsRequest response st = Returned (response, sendResponse response st)"

definition DebugSession_customRequest :: "string \<Rightarrow> handler" where
  "DebugSession_customRequest cmd response args st =
     sendErrorResponse response (Code 1014) (Some ''unrecognized request'') None
       (Some Telemetry) st"

text \<open>A session that overrides no handler.\<close>

definition defaultHandlers :: handlers where
  "defaultHandlers =
     \<lparr>initializeRequest = DebugSession_initializeRequest,
      launchRequest = DebugSession_launchRequest,
      attachRequest = DebugSession_attachRequest,
      disconnectRequest = DebugSession_disconnectRequest,
      setBreakPointsRequest = DebugSession_setBreakPointsRequest,
      setFunctionBreakPointsRequest = DebugSession_setFunctionBreakPointsRequest,
      setExceptionBreakPointsRequest = DebugSession_setExceptionBreakPointsRequest,
      configurationDoneRequest = DebugSession_configurationDoneRequest,
      continueRequest = DebugSession_continueRequest,
      nextRequest = DebugSession_nextRequest,
      stepInRequest = DebugSession_stepInRequest,
      stepOutRequest = DebugSession_stepOutRequest,
      stepBackRequest = DebugSession_stepBackRequest,
      pauseRequest = DebugSession_pauseRequest,
      stackTraceRequest = DebugSession_stackTraceRequest,
      scopesRequest = DebugSession_scopesRequest,
      variablesRequest = DebugSession_variablesRequest,
      setVariableRequest = DebugSession_setVariableRequest,
      sourceRequest = DebugSession_sourceRequest,
      threadsRequest = DebugSession_threadsRequest,
      evaluateRequest = DebugSession_evaluateRequest,
      customRequest = DebugSession_customRequest\<rparr>"

section \<open>Request dispatcher\<close>

text \<open>
  The body of the \<^verbatim>\<open>try\<close> block of \<^verbatim>\<open>dispatchRequest\<close>. For \<^verbatim>\<open>initialize\<close> the client's
  numbering flags are assigned first, then the path format is tested. Reading
  \<^verbatim>\<open>args.linesStartAt1\<close> throws when the request has no arguments.
\<close>

definition dispatchRequest_try ::
  "handlers \<Rightarrow> request \<Rightarrow> response \<Rightarrow> session \<Rightarrow> (response \<times> session) outcome" where
  "dispatchRequest_try h request response st =
     (if req_command request = ''initialize'' then
        (case req_arguments request of
           None \<Rightarrow> Threw (cannotReadProperty ''linesStartAt1'') (response, st)
         | Some args \<Rightarrow>
             (let st1 = (case linesStartAt1 args of
                           Some b \<Rightarrow> st\<lparr>clientLinesStartAt1 := b\<rparr>
                         | None \<Rightarrow> st);
                  st2 = (case columnsStartAt1 args of
                           Some b \<Rightarrow> st1\<lparr>clientColumnsStartAt1 := b\<rparr>
                         | None \<Rightarrow> st1)
              in if pathFormat args \<noteq> Some ''path'' then
                   sendErrorResponse response (Code 2018)
                     (Some ''debug adapter only supports native paths'') None
                     (Some Telemetry) st2
                 else
                   initializeRequest h (response\<lparr>body := Some empty_body\<rparr>) args st2))
      else if req_command request = ''launch'' then
        launchRequest h response (req_arguments request) st
      else if req_command request = ''attach'' then
        attachRequest h response (req_arguments request) st
      else if req_command request = ''disconnect'' then
        disconnectRequest h response (req_arguments request) st
      else if req_command request = ''setBreakpoints'' then
        setBreakPointsRequest h response (req_arguments request) st
      else if req_command request = ''setFunctionBreakpoints'' then
        setFunctionBreakPointsRequest h response (req_arguments request) st
      else if req_command request = ''setExceptionBreakpoints'' then
        setExceptionBreakPointsRequest h response (req_arguments request) st
      else if req_command request = ''configurationDone'' then
        configurationDoneRequest h response (req_arguments request) st
      else if req_command request = ''continue'' then
        continueRequest h response (req_arguments request) st
      else if req_command request = ''next'' then
        nextRequest h response (req_arguments request) st
      else if req_command request = ''stepIn'' then
        stepInRequest h response (req_arguments request) st
      else if req_command request = ''stepOut'' then
        stepOutRequest h response (req_arguments request) st
      else if req_command request = ''stepBack'' then
        stepBackRequest h response (req_arguments request) st
      else if req_command request = ''pause'' then
        pauseRequest h response (req_arguments request) st
      else if req_command request = ''stackTrace'' then
        stackTraceRequest h response (req_arguments request) st
      else if req_command request = ''scopes'' then
        scopesRequest h response (req_arguments request) st
      else if req_command request = ''variables'' then
        variablesRequest h response (req_arguments request) st
      else if req_command request = ''setVariable'' then
        setVariableRequest h response (req_arguments request) st
      else if req_command request = ''source'' then
        sourceRequest h response (req_arguments request) st
      else if req_command request = ''threads'' then
        threadsRequest h response st
      else if req_command request = ''evaluate'' then
        evaluateRequest h response (req_arguments request) st
      else
        customRequest h (req_command request) response (req_arguments request) st)"

text \<open>
  \<^verbatim>\<open>dispatchRequest\<close>: the \<^verbatim>\<open>try\<close> block, and the \<^verbatim>\<open>catch\<close> clause that turns an exception
  into error 1104. The clause first builds the variables from \<^verbatim>\<open>e.message\<close> and
  \<^verbatim>\<open>e.stack\<close>; when \<^verbatim>\<open>null\<close> or \<^verbatim>\<open>undefined\<close> was thrown, that read throws and the
  TypeError leaves \<^verbatim>\<open>dispatchRequest\<close> with nothing sent. Otherwise the clause works on
  the response object as the \<^verbatim>\<open>try\<close> block left it.
\<close>

definition dispatchRequest :: "handlers \<Rightarrow> request \<Rightarrow> session \<Rightarrow> session outcome" where
  "dispatchRequest h request st =
     (case dispatchRequest_try h request (newResponse request) st of
        Returned (response, st1) \<Rightarrow> Returned st1
      | Threw e (response, st1) \<Rightarrow>
          (case e of
             ThrownNullish \<Rightarrow> Threw (cannotReadProperty ''message'') st1
           | Thrown e_message e_stack \<Rightarrow>
               (case sendErrorResponse response (Code 1104) (Some ''{_stack}'')
                       (Some (objectLiteral [''_exception'' \<mapsto> e_message, ''_stack'' \<mapsto> e_stack]))
                       (Some Telemetry) st1 of
                  Returned (response2, st2) \<Rightarrow> Returned st2
                | Threw e2 (response2, st2) \<Rightarrow> Threw e2 st2)))"

text \<open>
  What the specification asks of a handler: it sends exactly one response and returns,
  or it fails by throwing a value other than \<^verbatim>\<open>null\<close> and \<^verbatim>\<open>undefined\<close> before it has
  sent anything. \<open>st\<close> is the session before the call.
\<close>

definition sendsOnceOrThrows :: "(response \<times> session) outcome \<Rightarrow> session \<Rightarrow> bool" where
  "sendsOnceOrThrows out st =
     (case out of
        Returned (response, st1) \<Rightarrow> sent st1 \<noteq> [] \<and> butlast (sent st1) = sent st
      | Threw e (response, st1) \<Rightarrow> e \<noteq> ThrownNullish \<and> sent st1 = sent st)"

text \<open>The command names that the dispatcher compares with, in its order.\<close>

definition recognizedCommands :: "string list" where
  "recognizedCommands =
     [''initialize'', ''launch'', ''attach'', ''disconnect'', ''setBreakpoints'',
      ''setFunctionBreakpoints'', ''setExceptionBreakpoints'', ''configurationDone'',
      ''continue'', ''next'', ''stepIn'', ''stepOut'', ''stepBack'', ''pause'',
      ''stackTrace'', ''scopes'', ''variables'', ''setVariable'', ''source'', ''threads'',
      ''evaluate'']"

section \<open>Coordinate translator\<close>

text \<open>
  Line and column numbers are JavaScript numbers, that is IEEE 754 doubles. The model
  holds an integer-valued finite double as the \<open>int\<close> it stands for. The sum or
  difference of two of them is the exact result rounded to the nearest double, ties to
  the even significand: \<open>roundToDouble\<close> keeps the 53 leading bits of the magnitude.
  Numbers with a fraction, \<^verbatim>\<open>NaN\<close> and the infinities are not modelled.
\<close>

definition roundToDouble :: "int \<Rightarrow> int" where
  "roundToDouble x =
     (let a = \<bar>x\<bar>;
          q = 2 ^ nat (bitlen a - 53);
          m = a div q;
          r = a mod q;
          m1 = (if 2 * r < q then m
                else if q < 2 * r then m + 1
                else if even m then m
                else m + 1)
      in sgn x * (m1 * q))"

definition js_plus :: "int \<Rightarrow> int \<Rightarrow> int" where
  "js_plus a b = roundToDouble (a + b)"

definition js_minus :: "int \<Rightarrow> int \<Rightarrow> int" where
  "js_minus a b = roundToDouble (a - b)"

definition convertClientLineToDebugger :: "session \<Rightarrow> int \<Rightarrow> int" where
  "convertClientLineToDebugger st line =
     (if debuggerLinesStartAt1 st
      then (if clientLinesStartAt1 st then line else js_plus line 1)
      else (if clientLinesStartAt1 st then js_minus line 1 else line))"

definition convertDebuggerLineToClient :: "session \<Rightarrow> int \<Rightarrow> int" where
  "convertDebuggerLineToClient st line =
     (if debuggerLinesStartAt1 st
      then (if clientLinesStartAt1 st then line else js_minus line 1)
      else (if clientLinesStartAt1 st then js_plus line 1 else line))"

definition convertClientColumnToDebugger :: "session \<Rightarrow> int \<Rightarrow> int" where
  "convertClientColumnToDebugger st column =
     (if debuggerColumnsStartAt1 st
      then (if clientColumnsStartAt1 st then column else js_plus column 1)
      else (if clientColumnsStartAt1 st then js_minus column 1 else column))"

definition convertDebuggerColumnToClient :: "session \<Rightarrow> int \<Rightarrow> int" where
  "convertDebuggerColumnToClient st column =
     (if debuggerColumnsStartAt1 st
      then (if clientColumnsStartAt1 st then column else js_minus column 1)
      else (if clientColumnsStartAt1 st then js_plus column 1 else column))"

text \<open>
  The path converters call \<^verbatim>\<open>encodeURI\<close> of the language and \<^verbatim>\<open>Url.parse\<close> of the
  runtime library; both are parameters here. \<^verbatim>\<open>pathName[0] !== '/'\<close> holds for the
  empty string too.
\<close>

definition path2uri :: "(string \<Rightarrow> string) \<Rightarrow> string \<Rightarrow> string" where
  "path2uri encodeURI str =
     (let pathName = map (\<lambda>c. if c = CHR 0x5C then CHR ''/'' else c) str;
          pathName1 = (case pathName of
                         [] \<Rightarrow> ''/''
                       | c # cs \<Rightarrow> if c \<noteq> CHR ''/'' then CHR ''/'' # pathName else pathName)
      in encodeURI (''file://'' @ pathName1))"

definition uri2path :: "(string \<Rightarrow> string) \<Rightarrow> string \<Rightarrow> string" where
  "uri2path urlParsePathname url = urlParsePathname url"

definition convertClientPathToDebugger ::
  "(string \<Rightarrow> string) \<Rightarrow> (string \<Rightarrow> string) \<Rightarrow> session \<Rightarrow> string \<Rightarrow> string" where
  "convertClientPathToDebugger encodeURI urlParsePathname st clientPath =
     (if clientPathsAreURIs st \<noteq> debuggerPathsAreURIs st then
        (if clientPathsAreURIs st then uri2path urlParsePathname clientPath
         else path2uri encodeURI clientPath)
      else clientPath)"

definition convertDebuggerPathToClient ::
  "(string \<Rightarrow> string) \<Rightarrow> (string \<Rightarrow> string) \<Rightarrow> session \<Rightarrow> string \<Rightarrow> string" where
  "convertDebuggerPathToClient encodeURI urlParsePathname st debuggerPath =
     (if debuggerPathsAreURIs st \<noteq> clientPathsAreURIs st then
        (if debuggerPathsAreURIs st then uri2path urlParsePathname debuggerPath
         else path2uri encodeURI debuggerPath)
      else debuggerPath)"

section \<open>Properties of the error formatter\<close>

lemma replace_total:
  "\<forall>m n. \<exists>r. fn m n = Inr r \<Longrightarrow> \<exists>out. replace_formatPIIRegexp fn s = Inr out"
proof (induction fn s rule: replace_formatPIIRegexp.induct)
  case (1 fn)
  then show ?case by simp
next
  case (2 fn c cs)
  show ?case
  proof (cases "c = CHR ''{'' \<and> takeWhile (\<lambda>x. x \<noteq> CHR ''}'') cs \<noteq> []
         \<and> dropWhile (\<lambda>x. x \<noteq> CHR ''}'') cs \<noteq> []")
    case True
    obtain r where r: "fn (c # takeWhile (\<lambda>x. x \<noteq> CHR ''}'') cs @ ''}'')
                 (takeWhile (\<lambda>x. x \<noteq> CHR ''}'') cs) = Inr r"
      using "2.prems" by blast
    from "2.IH"(1) [OF True r "2.prems"] obtain out where
      "replace_formatPIIRegexp fn (tl (dropWhile (\<lambda>x. x \<noteq> CHR ''}'') cs)) = Inr out"
      by blast
    with True r show ?thesis by simp
  next
    case False
    from "2.IH"(2) [OF False "2.prems"] obtain out where "replace_formatPIIRegexp fn cs = Inr out"
      by blast
    with False show ?thesis by auto
  qed
qed

lemma replace_no_close:
  "CHR ''}'' \<notin> set s \<Longrightarrow> replace_formatPIIRegexp fn s = Inr s"
proof (induction s)
  case Nil
  then show ?case by simp
next
  case (Cons c cs)
  then have "dropWhile (\<lambda>x. x \<noteq> CHR ''}'') cs = []"
    by auto
  with Cons show ?case by simp
qed

lemma replace_prefix:
  "CHR ''{'' \<notin> set pre \<Longrightarrow>
   replace_formatPIIRegexp fn (pre @ s) =
     (case replace_formatPIIRegexp fn s of Inl e \<Rightarrow> Inl e | Inr out \<Rightarrow> Inr (pre @ out))"
  by (induction pre) (auto split: sum.splits)

lemma replace_token:
  assumes "name \<noteq> []" and "CHR ''}'' \<notin> set name"
  shows "replace_formatPIIRegexp fn (CHR ''{'' # name @ CHR ''}'' # post) =
     (case fn (CHR ''{'' # name @ ''}'') name of
        Inl e \<Rightarrow> Inl e
      | Inr r \<Rightarrow>
          (case replace_formatPIIRegexp fn post of
             Inl e \<Rightarrow> Inl e
           | Inr out \<Rightarrow> Inr (r @ out)))"
proof -
  have t: "takeWhile (\<lambda>x. x \<noteq> CHR ''}'') (name @ CHR ''}'' # post) = name"
    using assms(2) by (induction name) auto
  have d: "dropWhile (\<lambda>x. x \<noteq> CHR ''}'') (name @ CHR ''}'' # post) = CHR ''}'' # post"
    using assms(2) by (induction name) auto
  show ?thesis
    unfolding replace_formatPIIRegexp.simps t d list.sel using assms(1) by simp
qed

text \<open>
  The callback on a plain object: one that inherits from \<^verbatim>\<open>Object.prototype\<close> and has no
  own property named \<open>hasOwnProperty\<close>.
\<close>

lemma callback_plain:
  assumes "inheritsObjectPrototype obj" and "own obj ''hasOwnProperty'' = None"
  shows "formatPII_callback redact (Some obj) m n =
     Inr (if redact \<and> n \<noteq> [] \<and> hd n \<noteq> CHR ''_'' then m
          else (case own obj n of
                  Some (Str s) \<Rightarrow> if s \<noteq> [] then s else m
                | _ \<Rightarrow> m))"
  using assms
  by (auto simp: formatPII_callback_def truthyProperty_def hasOwnProperty_def hd_conv_nth
      split: option.splits js_value.splits)

lemma formatPII_total:
  assumes "inheritsObjectPrototype obj" and "own obj ''hasOwnProperty'' = None"
  shows "\<exists>out. formatPII (Some t) redact (Some obj) = Inr out"
  unfolding formatPII_def
  using replace_total [of "formatPII_callback redact (Some obj)" t] callback_plain [OF assms]
  by simp

lemma formatPII_token:
  assumes "inheritsObjectPrototype obj" and "own obj ''hasOwnProperty'' = None"
    and "CHR ''{'' \<notin> set pre" and "name \<noteq> []" and "CHR ''}'' \<notin> set name"
    and "formatPII (Some post) redact (Some obj) = Inr out"
  shows "formatPII (Some (pre @ ''{'' @ name @ ''}'' @ post)) redact (Some obj) =
     Inr (pre @ (case own obj name of
                   Some (Str v) \<Rightarrow>
                     if v \<noteq> [] \<and> (\<not> redact \<or> hd name = CHR ''_'') then v
                     else ''{'' @ name @ ''}''
                 | _ \<Rightarrow> ''{'' @ name @ ''}'') @ out)"
proof -
  have cb: "formatPII_callback redact (Some obj) (CHR ''{'' # name @ ''}'') name =
     Inr (case own obj name of
            Some (Str v) \<Rightarrow>
              if v \<noteq> [] \<and> (\<not> redact \<or> hd name = CHR ''_'') then v
              else ''{'' @ name @ ''}''
          | _ \<Rightarrow> ''{'' @ name @ ''}'')"
    using assms(4)
    by (auto simp: callback_plain [OF assms(1,2)] split: option.splits js_value.splits)
  from assms(6)
  have post: "replace_formatPIIRegexp (formatPII_callback redact (Some obj)) post = Inr out"
    by (simp add: formatPII_def)
  have tok: "replace_formatPIIRegexp (formatPII_callback redact (Some obj))
               (CHR ''{'' # name @ CHR ''}'' # post) =
     Inr ((case own obj name of
            Some (Str v) \<Rightarrow>
              if v \<noteq> [] \<and> (\<not> redact \<or> hd name = CHR ''_'') then v
              else ''{'' @ name @ ''}''
          | _ \<Rightarrow> ''{'' @ name @ ''}'') @ out)"
    by (simp only: replace_token [OF assms(4,5)] cb post sum.case)
  have "replace_formatPIIRegexp (formatPII_callback redact (Some obj))
          (pre @ CHR ''{'' # name @ CHR ''}'' # post) =
     Inr (pre @ (case own obj name of
            Some (Str v) \<Rightarrow>
              if v \<noteq> [] \<and> (\<not> redact \<or> hd name = CHR ''_'') then v
              else ''{'' @ name @ ''}''
          | _ \<Rightarrow> ''{'' @ name @ ''}'') @ out)"
    by (simp only: replace_prefix [OF assms(3)] tok sum.case)
  then show ?thesis
    by (simp add: formatPII_def)
qed

lemma formatPII_no_close:
  "CHR ''}'' \<notin> set t \<Longrightarrow> formatPII (Some t) redact args = Inr t"
  by (simp add: formatPII_def replace_no_close)

lemma formatPII_empty_braces:
  assumes "CHR ''{'' \<notin> set pre" and "formatPII (Some post) redact args = Inr out"
  shows "formatPII (Some (pre @ ''{}'' @ post)) redact args = Inr (pre @ ''{}'' @ out)"
proof -
  from assms(2) have "replace_formatPIIRegexp (formatPII_callback redact args) post = Inr out"
    by (simp add: formatPII_def)
  then have "replace_formatPIIRegexp (formatPII_callback redact args) (''{}'' @ post) =
      Inr (''{}'' @ out)"
    by simp
  then show ?thesis
    by (simp add: formatPII_def replace_prefix [OF assms(1)])
qed

lemma formatPII_redacted_token:
  assumes "name \<noteq> []" and "CHR ''}'' \<notin> set name" and "hd name \<noteq> CHR ''_''"
  shows "formatPII (Some (''{'' @ name @ ''}'')) True args = Inr (''{'' @ name @ ''}'')"
proof -
  have "formatPII_callback True args (CHR ''{'' # name @ ''}'') name =
          Inr (CHR ''{'' # name @ ''}'')"
    using assms(1,3) by (simp add: formatPII_callback_def hd_conv_nth)
  then have "replace_formatPIIRegexp (formatPII_callback True args)
               (CHR ''{'' # name @ CHR ''}'' # []) = Inr (CHR ''{'' # name @ ''}'')"
    by (simp only: replace_token [OF assms(1,2)] replace_formatPIIRegexp.simps(1) sum.case
        append_Nil2)
  then show ?thesis by (simp add: formatPII_def)
qed

text \<open>The two renderings of the variables that the \<^verbatim>\<open>catch\<close> clause builds.\<close>

lemma formatPII_stack:
  "formatPII (Some ''{_stack}'') redact
     (Some (objectLiteral [''_exception'' \<mapsto> m, ''_stack'' \<mapsto> s])) =
     Inr (case s of Str t \<Rightarrow> if t = [] then ''{_stack}'' else t | Undefined \<Rightarrow> ''{_stack}'')"
  by (simp add: formatPII_def formatPII_callback_def truthyProperty_def hasOwnProperty_def
      objectLiteral_def split: js_value.splits)

lemma formatPII_exception:
  "formatPII (Some ''{_exception}'') redact
     (Some (objectLiteral [''_exception'' \<mapsto> m, ''_stack'' \<mapsto> s])) =
     Inr (case m of Str t \<Rightarrow> if t = [] then ''{_exception}'' else t
          | Undefined \<Rightarrow> ''{_exception}'')"
  by (simp add: formatPII_def formatPII_callback_def truthyProperty_def hasOwnProperty_def
      objectLiteral_def split: js_value.splits)

lemmas formatPII_eval =
  formatPII_def formatPII_callback_def truthyProperty_def hasOwnProperty_def
  objectLiteral_def objectPrototypeKeys_def

text \<open>
  C3, amended. Let the variables be a plain object: one that inherits from
  \<^verbatim>\<open>Object.prototype\<close>, as every object literal and parsed JSON object does, and that has
  no own property named \<open>hasOwnProperty\<close>. On every template \<^verbatim>\<open>formatPII\<close> then returns
  a string. A template without a closing brace is returned as it is. A token \<open>{name}\<close>
  (a non-empty name without a closing brace) behind text without an opening brace is
  replaced by \<open>variables[name]\<close> exactly when the key is in the mapping with a non-empty
  string as its value and (\<open>redact\<close> is false or the name starts with an underscore);
  otherwise the token stays as it is, and the rest of the template is formatted in the
  same way. An empty pair of braces is no token. The three examples of the specification
  hold. The result is a function of the three arguments alone.
\<close>

theorem formatPII_substitutes:
  assumes "inheritsObjectPrototype obj" and "own obj ''hasOwnProperty'' = None"
  shows "(\<exists>out. formatPII (Some t) redact (Some obj) = Inr out)
   \<and> (CHR ''}'' \<notin> set t \<longrightarrow> formatPII (Some t) redact (Some obj) = Inr t)
   \<and> (CHR ''{'' \<notin> set pre \<and> name \<noteq> [] \<and> CHR ''}'' \<notin> set name
        \<and> formatPII (Some post) redact (Some obj) = Inr rest \<longrightarrow>
      formatPII (Some (pre @ ''{'' @ name @ ''}'' @ post)) redact (Some obj) =
        Inr (pre @ (case own obj name of
                      Some (Str v) \<Rightarrow>
                        if v \<noteq> [] \<and> (\<not> redact \<or> hd name = CHR ''_'') then v
                        else ''{'' @ name @ ''}''
                    | _ \<Rightarrow> ''{'' @ name @ ''}'') @ rest))
   \<and> (CHR ''{'' \<notin> set pre \<and> formatPII (Some post) redact (Some obj) = Inr rest \<longrightarrow>
      formatPII (Some (pre @ ''{}'' @ post)) redact (Some obj) = Inr (pre @ ''{}'' @ rest))
   \<and> formatPII (Some ''{_stack}'') True
        (Some (objectLiteral [''_stack'' \<mapsto> Str ''trace'', ''user'' \<mapsto> Str ''bob'']))
       = Inr ''trace''
   \<and> formatPII (Some ''{user}'') True (Some (objectLiteral [''user'' \<mapsto> Str ''bob'']))
       = Inr ''{user}''
   \<and> formatPII (Some ''{user}'') False (Some (objectLiteral [''user'' \<mapsto> Str ''bob'']))
       = Inr ''bob''"
proof (intro conjI impI)
  show "\<exists>out. formatPII (Some t) redact (Some obj) = Inr out"
    by (rule formatPII_total [OF assms])
next
  assume "CHR ''}'' \<notin> set t"
  then show "formatPII (Some t) redact (Some obj) = Inr t"
    by (rule formatPII_no_close)
next
  assume "CHR ''{'' \<notin> set pre \<and> name \<noteq> [] \<and> CHR ''}'' \<notin> set name
        \<and> formatPII (Some post) redact (Some obj) = Inr rest"
  then show "formatPII (Some (pre @ ''{'' @ name @ ''}'' @ post)) redact (Some obj) =
        Inr (pre @ (case own obj name of
                      Some (Str v) \<Rightarrow>
                        if v \<noteq> [] \<and> (\<not> redact \<or> hd name = CHR ''_'') then v
                        else ''{'' @ name @ ''}''
                    | _ \<Rightarrow> ''{'' @ name @ ''}'') @ rest)"
    using formatPII_token [OF assms, of pre name post redact rest] by blast
next
  assume "CHR ''{'' \<notin> set pre \<and> formatPII (Some post) redact (Some obj) = Inr rest"
  then show "formatPII (Some (pre @ ''{}'' @ post)) redact (Some obj) =
      Inr (pre @ ''{}'' @ rest)"
    using formatPII_empty_braces [of pre post redact "Some obj" rest] by blast
next
  show "formatPII (Some ''{_stack}'') True
        (Some (objectLiteral [''_stack'' \<mapsto> Str ''trace'', ''user'' \<mapsto> Str ''bob'']))
       = Inr ''trace''"
    by (simp add: formatPII_eval)
next
  show "formatPII (Some ''{user}'') True (Some (objectLiteral [''user'' \<mapsto> Str ''bob'']))
       = Inr ''{user}''"
    by (simp add: formatPII_eval)
next
  show "formatPII (Some ''{user}'') False (Some (objectLiteral [''user'' \<mapsto> Str ''bob'']))
       = Inr ''bob''"
    by (simp add: formatPII_eval)
qed

text \<open>
  The theorem at the object literal \<open>{_n: "x", who: "bob"}\<close> and the templates
  \<open>Hi {who} {_n}\<close> and \<open>Hi {} {_n}\<close>, rendered with redaction: \<open>{who}\<close> and the empty
  braces stay, \<open>{_n}\<close> is replaced.
\<close>

theorem formatPII_substitutes_witness:
  "inheritsObjectPrototype (objectLiteral [''_n'' \<mapsto> Str ''x'', ''who'' \<mapsto> Str ''bob''])
   \<and> own (objectLiteral [''_n'' \<mapsto> Str ''x'', ''who'' \<mapsto> Str ''bob'']) ''hasOwnProperty'' = None
   \<and> CHR ''}'' \<notin> set ''a{b''
   \<and> formatPII (Some ''a{b'') True
        (Some (objectLiteral [''_n'' \<mapsto> Str ''x'', ''who'' \<mapsto> Str ''bob''])) = Inr ''a{b''
   \<and> CHR ''{'' \<notin> set ''Hi '' \<and> ''who'' \<noteq> [] \<and> CHR ''}'' \<notin> set ''who''
   \<and> formatPII (Some '' {_n}'') True
        (Some (objectLiteral [''_n'' \<mapsto> Str ''x'', ''who'' \<mapsto> Str ''bob''])) = Inr '' x''
   \<and> formatPII (Some ''Hi {who} {_n}'') True
        (Some (objectLiteral [''_n'' \<mapsto> Str ''x'', ''who'' \<mapsto> Str ''bob'']))
       = Inr ''Hi {who} x''
   \<and> formatPII (Some ''Hi {} {_n}'') True
        (Some (objectLiteral [''_n'' \<mapsto> Str ''x'', ''who'' \<mapsto> Str ''bob'']))
       = Inr ''Hi {} x''"
proof -
  have plain:
    "inheritsObjectPrototype (objectLiteral [''_n'' \<mapsto> Str ''x'', ''who'' \<mapsto> Str ''bob''])"
    "own (objectLiteral [''_n'' \<mapsto> Str ''x'', ''who'' \<mapsto> Str ''bob'']) ''hasOwnProperty'' = None"
    by (simp_all add: objectLiteral_def)
  have h1: "CHR ''}'' \<notin> set ''a{b''" by simp
  have h2: "CHR ''{'' \<notin> set ''Hi '' \<and> ''who'' \<noteq> [] \<and> CHR ''}'' \<notin> set ''who''
      \<and> formatPII (Some '' {_n}'') True
           (Some (objectLiteral [''_n'' \<mapsto> Str ''x'', ''who'' \<mapsto> Str ''bob''])) = Inr '' x''"
    by (simp add: formatPII_eval)
  have h3: "formatPII (Some ''Hi {} {_n}'') True
        (Some (objectLiteral [''_n'' \<mapsto> Str ''x'', ''who'' \<mapsto> Str ''bob'']))
       = Inr ''Hi {} x''"
    by (simp add: formatPII_eval)
  from plain h1 h2 h3
    formatPII_substitutes
      [OF plain, where t = "''a{b''" and redact = True and pre = "''Hi ''"
         and name = "''who''" and post = "'' {_n}''" and rest = "'' x''"]
  show ?thesis by (simp add: objectLiteral_def)
qed

text \<open>
  What the specification states fails in two places. Where a key is in the mapping with
  the empty string as its value, the token is not replaced by the (empty) value, it
  stays. And where the mapping has a key named \<open>hasOwnProperty\<close>, that property shadows
  the method the callback calls, so that formatting \<open>{_a}\<close> throws a TypeError.
\<close>

theorem formatPII_empty_value_counterexample:
  "own (objectLiteral [''_x'' \<mapsto> Str '''']) ''_x'' = Some (Str '''')
   \<and> formatPII (Some ''{_x}'') False (Some (objectLiteral [''_x'' \<mapsto> Str ''''])) = Inr ''{_x}''
   \<and> formatPII (Some ''{_x}'') False (Some (objectLiteral [''_x'' \<mapsto> Str ''''])) \<noteq> Inr ''''
   \<and> formatPII (Some ''{_a}'') False
        (Some (objectLiteral [''hasOwnProperty'' \<mapsto> Str ''x'', ''_a'' \<mapsto> Str ''y'']))
       = Inl (notAFunction ''args.hasOwnProperty'')"
  by (simp add: formatPII_eval)

section \<open>Properties of error responses\<close>

lemma dest_bits:
  "((d::int) AND User \<noteq> 0) = bit d 0" "((d::int) AND Telemetry \<noteq> 0) = bit d 1"
  using and_exp_eq_0_iff_not_bit [of d 0] and_exp_eq_0_iff_not_bit [of d 1]
  by (simp_all add: User_def Telemetry_def)

lemma sendErrorResponse_msg_Code:
  "sendErrorResponse_msg (Code c) fmt vars dest =
     \<lparr>id' = c, format = fmt, variables = vars,
      showUser = (if bit (case dest of None \<Rightarrow> User | Some x \<Rightarrow> x) 0
                  then Some True else None),
      sendTelemetry = (if bit (case dest of None \<Rightarrow> User | Some x \<Rightarrow> x) 1
                       then Some True else None)\<rparr>"
  by (simp add: sendErrorResponse_msg_def Let_def dest_bits)

lemma sendErrorResponse_msg_Msg: "sendErrorResponse_msg (Msg m) fmt vars dest = m"
  by (simp add: sendErrorResponse_msg_def)

text \<open>What \<^verbatim>\<open>sendErrorResponse\<close> does once the message is rendered.\<close>

lemma sendErrorResponse_rendered:
  assumes "formatPII (format (sendErrorResponse_msg com fmt vars dest)) True
             (variables (sendErrorResponse_msg com fmt vars dest)) = Inr rendered"
  shows "sendErrorResponse response com fmt vars dest st =
     Returned
       (response\<lparr>success := False, message := Some rendered,
          body := Some ((case body response of None \<Rightarrow> empty_body | Some b \<Rightarrow> b)
            \<lparr>error := Some (sendErrorResponse_msg com fmt vars dest)\<rparr>)\<rparr>,
        sendResponse
          (response\<lparr>success := False, message := Some rendered,
             body := Some ((case body response of None \<Rightarrow> empty_body | Some b \<Rightarrow> b)
               \<lparr>error := Some (sendErrorResponse_msg com fmt vars dest)\<rparr>)\<rparr>)
          st)"
  using assms by (simp add: sendErrorResponse_def Let_def)

lemma sendErrorResponse_Returned:
  assumes "sendErrorResponse response com fmt vars dest st = Returned x"
  obtains rendered where
    "formatPII (format (sendErrorResponse_msg com fmt vars dest)) True
       (variables (sendErrorResponse_msg com fmt vars dest)) = Inr rendered"
  using assms by (auto simp: sendErrorResponse_def Let_def split: sum.splits)

lemma sendErrorResponse_Threw:
  assumes "sendErrorResponse response com fmt vars dest st = Threw e x"
  shows "x = (response\<lparr>success := False\<rparr>, st)"
  using assms by (auto simp: sendErrorResponse_def Let_def split: sum.splits)

lemma sendErrorResponse_no_format:
  "sendErrorResponse response (Code c) None vars dest st =
     Threw (cannotReadProperty ''replace'') (response\<lparr>success := False\<rparr>, st)"
  by (simp add: sendErrorResponse_def Let_def sendErrorResponse_msg_Code formatPII_def)

lemma sendErrorResponse_Code:
  assumes "formatPII fmt True vars = Inr rendered"
  shows "sendErrorResponse response (Code c) fmt vars dest st =
     Returned
       (response\<lparr>success := False, message := Some rendered,
          body := Some ((case body response of None \<Rightarrow> empty_body | Some b \<Rightarrow> b)
            \<lparr>error := Some
               \<lparr>id' = c, format = fmt, variables = vars,
                showUser = (if bit (case dest of None \<Rightarrow> User | Some x \<Rightarrow> x) 0
                            then Some True else None),
                sendTelemetry = (if bit (case dest of None \<Rightarrow> User | Some x \<Rightarrow> x) 1
                                 then Some True else None)\<rparr>\<rparr>)\<rparr>,
        sendResponse
          (response\<lparr>success := False, message := Some rendered,
             body := Some ((case body response of None \<Rightarrow> empty_body | Some b \<Rightarrow> b)
               \<lparr>error := Some
                  \<lparr>id' = c, format = fmt, variables = vars,
                   showUser = (if bit (case dest of None \<Rightarrow> User | Some x \<Rightarrow> x) 0
                               then Some True else None),
                   sendTelemetry = (if bit (case dest of None \<Rightarrow> User | Some x \<Rightarrow> x) 1
                                    then Some True else None)\<rparr>\<rparr>)\<rparr>)
          st)"
proof -
  have "formatPII (format (sendErrorResponse_msg (Code c) fmt vars dest)) True
          (variables (sendErrorResponse_msg (Code c) fmt vars dest)) = Inr rendered"
    using assms by (simp add: sendErrorResponse_msg_Code)
  from sendErrorResponse_rendered [OF this, of response st]
  show ?thesis by (simp add: sendErrorResponse_msg_Code)
qed

lemma sendErrorResponse_plain:
  assumes "CHR ''}'' \<notin> set f"
  shows "sendErrorResponse response (Code c) (Some f) None (Some Telemetry) st =
     Returned
       (response\<lparr>success := False, message := Some f,
          body := Some ((case body response of None \<Rightarrow> empty_body | Some b \<Rightarrow> b)
            \<lparr>error := Some
               \<lparr>id' = c, format = Some f, variables = None,
                showUser = None, sendTelemetry = Some True\<rparr>\<rparr>)\<rparr>,
        sendResponse
          (response\<lparr>success := False, message := Some f,
             body := Some ((case body response of None \<Rightarrow> empty_body | Some b \<Rightarrow> b)
               \<lparr>error := Some
                  \<lparr>id' = c, format = Some f, variables = None,
                   showUser = None, sendTelemetry = Some True\<rparr>\<rparr>)\<rparr>)
          st)"
  by (simp add: sendErrorResponse_Code [OF formatPII_no_close [OF assms]] Telemetry_def)

text \<open>
  C1, amended. Every call of \<^verbatim>\<open>sendErrorResponse\<close> that returns has sent exactly the
  response it returns, and in that response \<open>success\<close> is false, \<open>body.error\<close> is the
  full, unmodified error message (the message passed in, or the one built from the code,
  the format and the variables) and \<open>message\<close> is the rendering of the message's format
  with redaction switched on: a placeholder whose name does not start with an underscore
  stays as the literal token, whatever the variables hold. A call with a numeric code, a
  format and a plain variables object (one that inherits from \<^verbatim>\<open>Object.prototype\<close> and
  has no own property named \<open>hasOwnProperty\<close>) always returns. A call that throws has
  sent nothing, and a call with a numeric code and no format throws.
\<close>

theorem sendErrorResponse_response:
  "(sendErrorResponse response com fmt vars dest st = Returned (r, st') \<longrightarrow>
      success r = False
      \<and> st' = sendResponse r st
      \<and> (\<exists>b rendered. body r = Some b
            \<and> error b = Some (sendErrorResponse_msg com fmt vars dest)
            \<and> formatPII (format (sendErrorResponse_msg com fmt vars dest)) True
                 (variables (sendErrorResponse_msg com fmt vars dest)) = Inr rendered
            \<and> message r = Some rendered))
   \<and> sendErrorResponse_msg (Msg m0) fmt vars dest = m0
   \<and> id' (sendErrorResponse_msg (Code c) fmt vars dest) = c
   \<and> format (sendErrorResponse_msg (Code c) fmt vars dest) = fmt
   \<and> variables (sendErrorResponse_msg (Code c) fmt vars dest) = vars
   \<and> (name \<noteq> [] \<and> CHR ''}'' \<notin> set name \<and> hd name \<noteq> CHR ''_'' \<longrightarrow>
        formatPII (Some (''{'' @ name @ ''}'')) True vars = Inr (''{'' @ name @ ''}''))
   \<and> (fmt = Some f \<and> vars = Some obj \<and> inheritsObjectPrototype obj
          \<and> own obj ''hasOwnProperty'' = None \<longrightarrow>
        (\<exists>r2 st2. sendErrorResponse response (Code c) fmt vars dest st = Returned (r2, st2)))
   \<and> (sendErrorResponse response com fmt vars dest st = Threw e (r3, st3) \<longrightarrow>
        st3 = st \<and> r3 = response\<lparr>success := False\<rparr>)
   \<and> sendErrorResponse response (Code c) None vars dest st =
        Threw (cannotReadProperty ''replace'') (response\<lparr>success := False\<rparr>, st)"
proof (intro conjI impI)
  assume ret: "sendErrorResponse response com fmt vars dest st = Returned (r, st')"
  then obtain rendered where rendered:
    "formatPII (format (sendErrorResponse_msg com fmt vars dest)) True
       (variables (sendErrorResponse_msg com fmt vars dest)) = Inr rendered"
    by (rule sendErrorResponse_Returned)
  from sendErrorResponse_rendered [OF rendered, of response st] ret
  have r: "r = response\<lparr>success := False, message := Some rendered,
          body := Some ((case body response of None \<Rightarrow> empty_body | Some b \<Rightarrow> b)
            \<lparr>error := Some (sendErrorResponse_msg com fmt vars dest)\<rparr>)\<rparr>"
    and st': "st' = sendResponse r st"
    by simp_all
  show "success r = False" by (simp add: r)
  show "st' = sendResponse r st" by (rule st')
  show "\<exists>b rendered. body r = Some b
            \<and> error b = Some (sendErrorResponse_msg com fmt vars dest)
            \<and> formatPII (format (sendErrorResponse_msg com fmt vars dest)) True
                 (variables (sendErrorResponse_msg com fmt vars dest)) = Inr rendered
            \<and> message r = Some rendered"
    using rendered by (simp add: r)
next
  show "sendErrorResponse_msg (Msg m0) fmt vars dest = m0"
    by (rule sendErrorResponse_msg_Msg)
next
  show "id' (sendErrorResponse_msg (Code c) fmt vars dest) = c"
    by (simp add: sendErrorResponse_msg_Code)
next
  show "format (sendErrorResponse_msg (Code c) fmt vars dest) = fmt"
    by (simp add: sendErrorResponse_msg_Code)
next
  show "variables (sendErrorResponse_msg (Code c) fmt vars dest) = vars"
    by (simp add: sendErrorResponse_msg_Code)
next
  assume "name \<noteq> [] \<and> CHR ''}'' \<notin> set name \<and> hd name \<noteq> CHR ''_''"
  then show "formatPII (Some (''{'' @ name @ ''}'')) True vars = Inr (''{'' @ name @ ''}'')"
    using formatPII_redacted_token [of name vars] by blast
next
  assume "fmt = Some f \<and> vars = Some obj \<and> inheritsObjectPrototype obj
          \<and> own obj ''hasOwnProperty'' = None"
  then obtain rendered where "formatPII fmt True vars = Inr rendered"
    using formatPII_total [of obj f True] by auto
  from sendErrorResponse_Code [OF this, of response c dest st]
  show "\<exists>r2 st2. sendErrorResponse response (Code c) fmt vars dest st = Returned (r2, st2)"
    by blast
next
  assume threw: "sendErrorResponse response com fmt vars dest st = Threw e (r3, st3)"
  from sendErrorResponse_Threw [OF threw] show "st3 = st" by simp
  from sendErrorResponse_Threw [OF threw] show "r3 = response\<lparr>success := False\<rparr>" by simp
next
  show "sendErrorResponse response (Code c) None vars dest st =
        Threw (cannotReadProperty ''replace'') (response\<lparr>success := False\<rparr>, st)"
    by (rule sendErrorResponse_no_format)
qed

text \<open>
  The theorem at a call with code 1, the format \<open>{user}\<close> and a value for \<open>user\<close>, on
  the response to a \<open>launch\<close> request in a fresh session.
\<close>

theorem sendErrorResponse_response_witness:
  "sendErrorResponse
     (newResponse \<lparr>seq = 1, req_command = ''launch'', req_arguments = None\<rparr>)
     (Code 1) (Some ''{user}'') (Some (objectLiteral [''user'' \<mapsto> Str ''bob''])) None (newDebugSession None None)
   = Returned
       ((newResponse \<lparr>seq = 1, req_command = ''launch'', req_arguments = None\<rparr>)
          \<lparr>success := False, message := Some ''{user}'',
           body := Some (empty_body\<lparr>error := Some
             \<lparr>id' = 1, format = Some ''{user}'', variables = Some (objectLiteral [''user'' \<mapsto> Str ''bob'']),
              showUser = Some True, sendTelemetry = None\<rparr>\<rparr>)\<rparr>,
        sendResponse
          ((newResponse \<lparr>seq = 1, req_command = ''launch'', req_arguments = None\<rparr>)
             \<lparr>success := False, message := Some ''{user}'',
              body := Some (empty_body\<lparr>error := Some
                \<lparr>id' = 1, format = Some ''{user}'', variables = Some (objectLiteral [''user'' \<mapsto> Str ''bob'']),
                 showUser = Some True, sendTelemetry = None\<rparr>\<rparr>)\<rparr>)
          (newDebugSession None None))
   \<and> ''user'' \<noteq> [] \<and> CHR ''}'' \<notin> set ''user'' \<and> hd ''user'' \<noteq> CHR ''_''
   \<and> formatPII (Some ''{user}'') True (Some (objectLiteral [''user'' \<mapsto> Str ''bob''])) = Inr ''{user}''
   \<and> sent (sendResponse
          ((newResponse \<lparr>seq = 1, req_command = ''launch'', req_arguments = None\<rparr>)
             \<lparr>success := False, message := Some ''{user}'',
              body := Some (empty_body\<lparr>error := Some
                \<lparr>id' = 1, format = Some ''{user}'', variables = Some (objectLiteral [''user'' \<mapsto> Str ''bob'']),
                 showUser = Some True, sendTelemetry = None\<rparr>\<rparr>)\<rparr>)
          (newDebugSession None None))
     = [(newResponse \<lparr>seq = 1, req_command = ''launch'', req_arguments = None\<rparr>)
          \<lparr>success := False, message := Some ''{user}'',
           body := Some (empty_body\<lparr>error := Some
             \<lparr>id' = 1, format = Some ''{user}'', variables = Some (objectLiteral [''user'' \<mapsto> Str ''bob'']),
              showUser = Some True, sendTelemetry = None\<rparr>\<rparr>)\<rparr>]"
proof -
  have tok: "''user'' \<noteq> [] \<and> CHR ''}'' \<notin> set ''user'' \<and> hd ''user'' \<noteq> CHR ''_''"
    by simp
  have ren: "formatPII (Some ''{user}'') True (Some (objectLiteral [''user'' \<mapsto> Str ''bob''])) = Inr ''{user}''"
    using sendErrorResponse_response
        [where vars = "Some (objectLiteral [''user'' \<mapsto> Str ''bob''])" and name = "''user''"] tok
    by simp
  show ?thesis
    using tok ren
    by (simp add: sendErrorResponse_Code [OF ren] newResponse_def newDebugSession_def
        sendResponse_def User_def)
qed

text \<open>
  What the specification states fails at the same call: with \<open>user\<close> in the variables, the
  rendering without redaction is \<open>bob\<close>, but \<open>response.message\<close> is the literal
  \<open>{user}\<close>. And a call with a code alone, which the signature allows, throws when it
  reads the format, with nothing sent.
\<close>

theorem sendErrorResponse_unredacted_counterexample:
  "sendErrorResponse
     (newResponse \<lparr>seq = 1, req_command = ''launch'', req_arguments = None\<rparr>)
     (Code 1) (Some ''{user}'') (Some (objectLiteral [''user'' \<mapsto> Str ''bob''])) None (newDebugSession None None)
   = Returned
       ((newResponse \<lparr>seq = 1, req_command = ''launch'', req_arguments = None\<rparr>)
          \<lparr>success := False, message := Some ''{user}'',
           body := Some (empty_body\<lparr>error := Some
             \<lparr>id' = 1, format = Some ''{user}'', variables = Some (objectLiteral [''user'' \<mapsto> Str ''bob'']),
              showUser = Some True, sendTelemetry = None\<rparr>\<rparr>)\<rparr>,
        sendResponse
          ((newResponse \<lparr>seq = 1, req_command = ''launch'', req_arguments = None\<rparr>)
             \<lparr>success := False, message := Some ''{user}'',
              body := Some (empty_body\<lparr>error := Some
                \<lparr>id' = 1, format = Some ''{user}'', variables = Some (objectLiteral [''user'' \<mapsto> Str ''bob'']),
                 showUser = Some True, sendTelemetry = None\<rparr>\<rparr>)\<rparr>)
          (newDebugSession None None))
   \<and> formatPII (Some ''{user}'') False (Some (objectLiteral [''user'' \<mapsto> Str ''bob''])) = Inr ''bob''
   \<and> Some ''{user}'' \<noteq> Some ''bob''
   \<and> sendErrorResponse
       (newResponse \<lparr>seq = 1, req_command = ''launch'', req_arguments = None\<rparr>)
       (Code 1) None None None (newDebugSession None None)
     = Threw (cannotReadProperty ''replace'')
         ((newResponse \<lparr>seq = 1, req_command = ''launch'', req_arguments = None\<rparr>)
            \<lparr>success := False\<rparr>,
          newDebugSession None None)
   \<and> sent (newDebugSession None None) = []"
proof -
  have ren: "formatPII (Some ''{user}'') True (Some (objectLiteral [''user'' \<mapsto> Str ''bob''])) = Inr ''{user}''"
    by (simp add: formatPII_eval)
  have unred: "formatPII (Some ''{user}'') False (Some (objectLiteral [''user'' \<mapsto> Str ''bob''])) = Inr ''bob''"
    by (simp add: formatPII_eval)
  show ?thesis
    using unred
    by (simp add: sendErrorResponse_Code [OF ren] sendErrorResponse_no_format
        newResponse_def newDebugSession_def sendResponse_def User_def)
qed

text \<open>
  C10. For a numeric code the message that \<^verbatim>\<open>sendErrorResponse\<close> builds, and attaches to
  the response when it returns, has \<open>showUser\<close> set exactly when the destination
  includes \<open>User\<close> (bit 0) and \<open>sendTelemetry\<close> set exactly when it includes
  \<open>Telemetry\<close> (bit 1). Without a destination argument the destination is \<open>User\<close>:
  \<open>showUser\<close> is true and \<open>sendTelemetry\<close> is not set.
\<close>

theorem sendErrorResponse_destination:
  "showUser (sendErrorResponse_msg (Code c) fmt vars None) = Some True
   \<and> sendTelemetry (sendErrorResponse_msg (Code c) fmt vars None) = None
   \<and> showUser (sendErrorResponse_msg (Code c) fmt vars (Some d)) =
       (if bit d 0 then Some True else None)
   \<and> sendTelemetry (sendErrorResponse_msg (Code c) fmt vars (Some d)) =
       (if bit d 1 then Some True else None)
   \<and> bit User 0 \<and> \<not> bit User 1 \<and> \<not> bit Telemetry 0 \<and> bit Telemetry 1
   \<and> (sendErrorResponse response (Code c) fmt vars dest st = Returned (r, st') \<longrightarrow>
        (\<exists>b. body r = Some b \<and> error b = Some (sendErrorResponse_msg (Code c) fmt vars dest)))"
proof (intro conjI impI)
  assume ret: "sendErrorResponse response (Code c) fmt vars dest st = Returned (r, st')"
  then obtain rendered where
    "formatPII (format (sendErrorResponse_msg (Code c) fmt vars dest)) True
       (variables (sendErrorResponse_msg (Code c) fmt vars dest)) = Inr rendered"
    by (rule sendErrorResponse_Returned)
  from sendErrorResponse_rendered [OF this, of response st] ret
  show "\<exists>b. body r = Some b \<and> error b = Some (sendErrorResponse_msg (Code c) fmt vars dest)"
    by auto
qed (simp_all add: sendErrorResponse_msg_Code User_def Telemetry_def)

text \<open>
  The theorem at the call the default \<^verbatim>\<open>customRequest\<close> makes, with the destination left
  out: the attached message is for the user only.
\<close>

theorem sendErrorResponse_destination_witness:
  "sendErrorResponse
     (newResponse \<lparr>seq = 1, req_command = ''launch'', req_arguments = None\<rparr>)
     (Code 1014) (Some ''unrecognized request'') None None (newDebugSession None None)
   = Returned
       ((newResponse \<lparr>seq = 1, req_command = ''launch'', req_arguments = None\<rparr>)
          \<lparr>success := False, message := Some ''unrecognized request'',
           body := Some (empty_body\<lparr>error := Some
             (sendErrorResponse_msg (Code 1014) (Some ''unrecognized request'') None None)\<rparr>)\<rparr>,
        sendResponse
          ((newResponse \<lparr>seq = 1, req_command = ''launch'', req_arguments = None\<rparr>)
             \<lparr>success := False, message := Some ''unrecognized request'',
              body := Some (empty_body\<lparr>error := Some
                (sendErrorResponse_msg (Code 1014) (Some ''unrecognized request'') None
                   None)\<rparr>)\<rparr>)
          (newDebugSession None None))
   \<and> showUser (sendErrorResponse_msg (Code 1014) (Some ''unrecognized request'') None None)
       = Some True
   \<and> sendTelemetry (sendErrorResponse_msg (Code 1014) (Some ''unrecognized request'') None None)
       = None"
proof -
  have "formatPII (format (sendErrorResponse_msg (Code 1014) (Some ''unrecognized request'')
            None None)) True
          (variables (sendErrorResponse_msg (Code 1014) (Some ''unrecognized request'')
            None None)) = Inr ''unrecognized request''"
    by (simp add: sendErrorResponse_msg_Code formatPII_no_close)
  from sendErrorResponse_rendered [OF this]
    sendErrorResponse_destination [of 1014 "Some ''unrecognized request''" None]
  show ?thesis by (simp add: newResponse_def)
qed

section \<open>Properties of the dispatcher\<close>

lemmas DebugSession_handler_defs =
  DebugSession_launchRequest_def DebugSession_attachRequest_def
  DebugSession_disconnectRequest_def DebugSession_setBreakPointsRequest_def
  DebugSession_setFunctionBreakPointsRequest_def
  DebugSession_setExceptionBreakPointsRequest_def
  DebugSession_configurationDoneRequest_def DebugSession_continueRequest_def
  DebugSession_nextRequest_def DebugSession_stepInRequest_def
  DebugSession_stepOutRequest_def DebugSession_stepBackRequest_def
  DebugSession_pauseRequest_def DebugSession_stackTraceRequest_def
  DebugSession_scopesRequest_def DebugSession_variablesRequest_def
  DebugSession_setVariableRequest_def DebugSession_sourceRequest_def
  DebugSession_threadsRequest_def DebugSession_evaluateRequest_def

text \<open>The \<^verbatim>\<open>try\<close> block on an \<^verbatim>\<open>initialize\<close> request that has arguments.\<close>

lemma try_initialize:
  assumes "req_command request = ''initialize''" and "req_arguments request = Some args"
  shows "dispatchRequest_try h request response st =
     (if pathFormat args \<noteq> Some ''path'' then
        sendErrorResponse response (Code 2018)
          (Some ''debug adapter only supports native paths'') None (Some Telemetry)
          (st\<lparr>clientLinesStartAt1 :=
                 (case linesStartAt1 args of Some b \<Rightarrow> b | None \<Rightarrow> clientLinesStartAt1 st),
              clientColumnsStartAt1 :=
                 (case columnsStartAt1 args of Some b \<Rightarrow> b
                  | None \<Rightarrow> clientColumnsStartAt1 st)\<rparr>)
      else
        initializeRequest h (response\<lparr>body := Some empty_body\<rparr>) args
          (st\<lparr>clientLinesStartAt1 :=
                 (case linesStartAt1 args of Some b \<Rightarrow> b | None \<Rightarrow> clientLinesStartAt1 st),
              clientColumnsStartAt1 :=
                 (case columnsStartAt1 args of Some b \<Rightarrow> b
                  | None \<Rightarrow> clientColumnsStartAt1 st)\<rparr>))"
  using assms by (simp add: dispatchRequest_try_def Let_def split: option.splits)

lemma try_unrecognized:
  assumes "req_command request \<notin> set recognizedCommands"
  shows "dispatchRequest_try h request response st =
     customRequest h (req_command request) response (req_arguments request) st"
  using assms by (simp add: dispatchRequest_try_def recognizedCommands_def)

lemma try_default_plain:
  assumes "req_command request \<in> set (tl recognizedCommands)"
  shows "dispatchRequest_try defaultHandlers request response st =
     Returned (response,
       if req_command request = ''disconnect'' then shutdown (sendResponse response st)
       else sendResponse response st)"
  using assms
  by (auto simp: dispatchRequest_try_def recognizedCommands_def defaultHandlers_def
      DebugSession_handler_defs)

text \<open>The \<^verbatim>\<open>catch\<close> clause of the dispatcher.\<close>

lemma dispatchRequest_Threw:
  assumes "dispatchRequest_try h request (newResponse request) st = Threw (Thrown m s) (r, st1)"
  shows "dispatchRequest h request st =
     Returned (sendResponse
       (r\<lparr>success := False,
          message := Some (case s of
                             Str t \<Rightarrow> if t = [] then ''{_stack}'' else t
                           | Undefined \<Rightarrow> ''{_stack}''),
          body := Some ((case body r of None \<Rightarrow> empty_body | Some b \<Rightarrow> b)
            \<lparr>error := Some
               \<lparr>id' = 1104, format = Some ''{_stack}'',
                variables = Some (objectLiteral [''_exception'' \<mapsto> m, ''_stack'' \<mapsto> s]),
                showUser = None, sendTelemetry = Some True\<rparr>\<rparr>)\<rparr>) st1)"
  using assms
  by (simp add: dispatchRequest_def
      sendErrorResponse_Code [OF formatPII_stack] Telemetry_def)

lemma dispatchRequest_Threw_nullish:
  assumes "dispatchRequest_try h request (newResponse request) st = Threw ThrownNullish (r, st1)"
  shows "dispatchRequest h request st = Threw (cannotReadProperty ''message'') st1"
  using assms by (simp add: dispatchRequest_def)

lemma dispatchRequest_Returned:
  assumes "dispatchRequest_try h request (newResponse request) st = Returned (r, st1)"
  shows "dispatchRequest h request st = Returned st1"
  using assms by (simp add: dispatchRequest_def)

lemma cannotReadProperty_Thrown:
  "cannotReadProperty p =
     Thrown (Str (''Cannot read property '' @ [CHR 0x27] @ p @ [CHR 0x27] @ '' of undefined''))
       (Str (''TypeError: '' @ ''Cannot read property '' @ [CHR 0x27] @ p @ [CHR 0x27]
             @ '' of undefined''))"
  by (simp add: cannotReadProperty_def Let_def)

lemma dispatch_unrecognized:
  assumes "req_command request \<notin> set recognizedCommands"
  shows "dispatchRequest defaultHandlers request st =
     Returned (st\<lparr>sent := sent st @
       [\<lparr>request_seq = seq request, success = False, command = req_command request,
         message = Some ''unrecognized request'',
         body = Some (empty_body\<lparr>error := Some
           \<lparr>id' = 1014, format = Some ''unrecognized request'', variables = None,
            showUser = None, sendTelemetry = Some True\<rparr>\<rparr>)\<rparr>]\<rparr>)"
proof -
  have "dispatchRequest_try defaultHandlers request (newResponse request) st =
     sendErrorResponse (newResponse request) (Code 1014) (Some ''unrecognized request'') None
       (Some Telemetry) st"
    by (simp add: try_unrecognized [OF assms] defaultHandlers_def
        DebugSession_customRequest_def)
  then show ?thesis
    by (simp add: dispatchRequest_def sendErrorResponse_plain sendResponse_def
        newResponse_def)
qed

lemma dispatch_initialize_unsupported:
  assumes "req_command request = ''initialize''" and "req_arguments request = Some args"
    and "pathFormat args \<noteq> Some ''path''"
  shows "dispatchRequest h request st =
         Returned (st\<lparr>clientLinesStartAt1 :=
                 (case linesStartAt1 args of Some b \<Rightarrow> b | None \<Rightarrow> clientLinesStartAt1 st),
              clientColumnsStartAt1 :=
                 (case columnsStartAt1 args of Some b \<Rightarrow> b
                  | None \<Rightarrow> clientColumnsStartAt1 st),
              sent := sent st @
                [\<lparr>request_seq = seq request, success = False, command = ''initialize'',
                  message = Some ''debug adapter only supports native paths'',
                  body = Some (empty_body\<lparr>error := Some
                    \<lparr>id' = 2018,
                     format = Some ''debug adapter only supports native paths'',
                     variables = None, showUser = None,
                     sendTelemetry = Some True\<rparr>\<rparr>)\<rparr>]\<rparr>)"
  using assms(1,3)
  by (simp add: dispatchRequest_def try_initialize [OF assms(1,2)] sendErrorResponse_plain
      sendResponse_def newResponse_def)

lemma default_initialize:
  assumes "req_command request = ''initialize''" and "req_arguments request = Some args"
    and "pathFormat args = Some ''path''"
  shows "dispatchRequest defaultHandlers request st =
     Returned (st\<lparr>clientLinesStartAt1 :=
                 (case linesStartAt1 args of Some b \<Rightarrow> b | None \<Rightarrow> clientLinesStartAt1 st),
              clientColumnsStartAt1 :=
                 (case columnsStartAt1 args of Some b \<Rightarrow> b
                  | None \<Rightarrow> clientColumnsStartAt1 st),
              sent := sent st @
                [\<lparr>request_seq = seq request, success = True, command = ''initialize'',
                  message = None,
                  body = Some
                    \<lparr>error = None, supportsConditionalBreakpoints = Some False,
                     supportsFunctionBreakpoints = Some False,
                     supportsConfigurationDoneRequest = Some True,
                     supportsEvaluateForHovers = Some False,
                     supportsStepBack = Some False,
                     supportsSetVariable = Some False\<rparr>\<rparr>]\<rparr>)"
  using assms(1,3)
  by (simp add: dispatchRequest_def try_initialize [OF assms(1,2)] defaultHandlers_def
      DebugSession_initializeRequest_def sendResponse_def newResponse_def empty_body_def
      Let_def)

lemma default_plain:
  assumes "req_command request \<in> set (tl recognizedCommands)"
  shows "dispatchRequest defaultHandlers request st =
     Returned
       ((if req_command request = ''disconnect'' then shutdown st else st)
          \<lparr>sent := sent st @
            [\<lparr>request_seq = seq request, success = True, command = req_command request,
              message = None, body = None\<rparr>]\<rparr>)"
  by (simp add: dispatchRequest_def try_default_plain [OF assms] sendResponse_def
      newResponse_def shutdown_def)

section \<open>Properties of the number model\<close>

text \<open>Up to \<open>2 ^ 53\<close> in absolute value every integer is a double.\<close>

lemma roundToDouble_exact:
  assumes "\<bar>x\<bar> \<le> 9007199254740992"
  shows "roundToDouble x = x"
proof (cases "\<bar>x\<bar> < 9007199254740992")
  case True
  then have "\<bar>x\<bar> < 2 ^ nat 53" by simp
  then have "bitlen \<bar>x\<bar> \<le> 53"
    using bitlen_le_iff_power [of "\<bar>x\<bar>" 53] by simp
  then have "nat (bitlen \<bar>x\<bar> - 53) = 0" by simp
  then show ?thesis
    by (simp add: roundToDouble_def Let_def mult_sgn_abs)
next
  case False
  with assms have a: "\<bar>x\<bar> = 9007199254740992" by simp
  have "bitlen (1 * 2 ^ 53) = bitlen 1 + int 53"
    by (rule bitlen_pow2) simp
  moreover have "bitlen 1 = 1"
    using bitlen_pow2 [of 1 0] by (simp add: bitlen_alt_def)
  ultimately have "bitlen 9007199254740992 = 54" by simp
  with a have "roundToDouble x = sgn x * 9007199254740992"
    by (simp add: roundToDouble_def Let_def)
  also have "\<dots> = sgn x * \<bar>x\<bar>" by (simp add: a)
  also have "\<dots> = x" by (rule mult_sgn_abs)
  finally show ?thesis .
qed

lemma js_plus_exact: "\<bar>a + b\<bar> \<le> 9007199254740992 \<Longrightarrow> js_plus a b = a + b"
  by (simp add: js_plus_def roundToDouble_exact)

lemma js_minus_exact: "\<bar>a - b\<bar> \<le> 9007199254740992 \<Longrightarrow> js_minus a b = a - b"
  by (simp add: js_minus_def roundToDouble_exact)

text \<open>
  C2, amended. On an \<open>initialize\<close> request the dispatcher first updates the client's
  line and column flags from \<open>linesStartAt1\<close> and \<open>columnsStartAt1\<close> (each only when it
  is present as a boolean), whatever the path format is. When \<open>pathFormat\<close> is not
  \<open>path\<close>, it then sends exactly one error response (id 2018, flagged for telemetry
  only, without capabilities in the body) and returns, whatever the handlers are: no
  handler is invoked. Only when \<open>pathFormat\<close> is \<open>path\<close> is the \<open>initialize\<close> handler
  invoked, on a response with an empty body and on the session with the updated flags.
\<close>

theorem initialize_path_format:
  assumes "req_command request = ''initialize''" and "req_arguments request = Some args"
  shows "(pathFormat args \<noteq> Some ''path'' \<longrightarrow>
       dispatchRequest h request st =
         Returned (st\<lparr>clientLinesStartAt1 :=
                 (case linesStartAt1 args of Some b \<Rightarrow> b | None \<Rightarrow> clientLinesStartAt1 st),
              clientColumnsStartAt1 :=
                 (case columnsStartAt1 args of Some b \<Rightarrow> b
                  | None \<Rightarrow> clientColumnsStartAt1 st),
              sent := sent st @
                [\<lparr>request_seq = seq request, success = False, command = ''initialize'',
                  message = Some ''debug adapter only supports native paths'',
                  body = Some (empty_body\<lparr>error := Some
                    \<lparr>id' = 2018,
                     format = Some ''debug adapter only supports native paths'',
                     variables = None, showUser = None,
                     sendTelemetry = Some True\<rparr>\<rparr>)\<rparr>]\<rparr>))
     \<and> (pathFormat args = Some ''path'' \<longrightarrow>
       dispatchRequest_try h request (newResponse request) st =
         initializeRequest h
           \<lparr>request_seq = seq request, success = True, command = ''initialize'',
            message = None, body = Some empty_body\<rparr>
           args
           (st\<lparr>clientLinesStartAt1 :=
                 (case linesStartAt1 args of Some b \<Rightarrow> b | None \<Rightarrow> clientLinesStartAt1 st),
              clientColumnsStartAt1 :=
                 (case columnsStartAt1 args of Some b \<Rightarrow> b
                  | None \<Rightarrow> clientColumnsStartAt1 st)\<rparr>))"
proof (intro conjI impI)
  assume "pathFormat args \<noteq> Some ''path''"
  then show "dispatchRequest h request st =
         Returned (st\<lparr>clientLinesStartAt1 :=
                 (case linesStartAt1 args of Some b \<Rightarrow> b | None \<Rightarrow> clientLinesStartAt1 st),
              clientColumnsStartAt1 :=
                 (case columnsStartAt1 args of Some b \<Rightarrow> b
                  | None \<Rightarrow> clientColumnsStartAt1 st),
              sent := sent st @
                [\<lparr>request_seq = seq request, success = False, command = ''initialize'',
                  message = Some ''debug adapter only supports native paths'',
                  body = Some (empty_body\<lparr>error := Some
                    \<lparr>id' = 2018,
                     format = Some ''debug adapter only supports native paths'',
                     variables = None, showUser = None,
                     sendTelemetry = Some True\<rparr>\<rparr>)\<rparr>]\<rparr>)"
    by (rule dispatch_initialize_unsupported [OF assms])
next
  assume "pathFormat args = Some ''path''"
  then show "dispatchRequest_try h request (newResponse request) st =
         initializeRequest h
           \<lparr>request_seq = seq request, success = True, command = ''initialize'',
            message = None, body = Some empty_body\<rparr>
           args
           (st\<lparr>clientLinesStartAt1 :=
                 (case linesStartAt1 args of Some b \<Rightarrow> b | None \<Rightarrow> clientLinesStartAt1 st),
              clientColumnsStartAt1 :=
                 (case columnsStartAt1 args of Some b \<Rightarrow> b
                  | None \<Rightarrow> clientColumnsStartAt1 st)\<rparr>)"
    using assms(1) by (simp add: try_initialize [OF assms] newResponse_def)
qed

text \<open>
  The theorem at two requests to a fresh session: with \<open>pathFormat\<close> \<open>uri\<close> and
  \<open>linesStartAt1\<close> false the error goes out and the line flag has changed; with
  \<open>pathFormat\<close> \<open>path\<close> the handler is called.
\<close>

theorem initialize_path_format_witness:
  "pathFormat \<lparr>linesStartAt1 = Some False, columnsStartAt1 = None, pathFormat = Some ''uri''\<rparr>
     \<noteq> Some ''path''
   \<and> dispatchRequest defaultHandlers
       \<lparr>seq = 1, req_command = ''initialize'',
        req_arguments = Some
          \<lparr>linesStartAt1 = Some False, columnsStartAt1 = None, pathFormat = Some ''uri''\<rparr>\<rparr>
       (newDebugSession None None)
     = Returned ((newDebugSession None None)
         \<lparr>clientLinesStartAt1 := False,
          sent :=
            [\<lparr>request_seq = 1, success = False, command = ''initialize'',
              message = Some ''debug adapter only supports native paths'',
              body = Some (empty_body\<lparr>error := Some
                \<lparr>id' = 2018,
                 format = Some ''debug adapter only supports native paths'',
                 variables = None, showUser = None,
                 sendTelemetry = Some True\<rparr>\<rparr>)\<rparr>]\<rparr>)
   \<and> pathFormat \<lparr>linesStartAt1 = None, columnsStartAt1 = None, pathFormat = Some ''path''\<rparr>
     = Some ''path''
   \<and> dispatchRequest_try defaultHandlers
       \<lparr>seq = 2, req_command = ''initialize'',
        req_arguments = Some
          \<lparr>linesStartAt1 = None, columnsStartAt1 = None, pathFormat = Some ''path''\<rparr>\<rparr>
       (newResponse
          \<lparr>seq = 2, req_command = ''initialize'',
           req_arguments = Some
             \<lparr>linesStartAt1 = None, columnsStartAt1 = None, pathFormat = Some ''path''\<rparr>\<rparr>)
       (newDebugSession None None)
     = initializeRequest defaultHandlers
         \<lparr>request_seq = 2, success = True, command = ''initialize'',
          message = None, body = Some empty_body\<rparr>
         \<lparr>linesStartAt1 = None, columnsStartAt1 = None, pathFormat = Some ''path''\<rparr>
         (newDebugSession None None)"
proof -
  have uri: "dispatchRequest defaultHandlers
       \<lparr>seq = 1, req_command = ''initialize'',
        req_arguments = Some
          \<lparr>linesStartAt1 = Some False, columnsStartAt1 = None, pathFormat = Some ''uri''\<rparr>\<rparr>
       (newDebugSession None None)
     = Returned ((newDebugSession None None)
         \<lparr>clientLinesStartAt1 := False,
          sent :=
            [\<lparr>request_seq = 1, success = False, command = ''initialize'',
              message = Some ''debug adapter only supports native paths'',
              body = Some (empty_body\<lparr>error := Some
                \<lparr>id' = 2018,
                 format = Some ''debug adapter only supports native paths'',
                 variables = None, showUser = None,
                 sendTelemetry = Some True\<rparr>\<rparr>)\<rparr>]\<rparr>)"
    using initialize_path_format
      [of "\<lparr>seq = 1, req_command = ''initialize'',
            req_arguments = Some
              \<lparr>linesStartAt1 = Some False, columnsStartAt1 = None,
               pathFormat = Some ''uri''\<rparr>\<rparr>"
          "\<lparr>linesStartAt1 = Some False, columnsStartAt1 = None, pathFormat = Some ''uri''\<rparr>"
          defaultHandlers "newDebugSession None None"]
    by (simp add: newDebugSession_def)
  have path: "dispatchRequest_try defaultHandlers
       \<lparr>seq = 2, req_command = ''initialize'',
        req_arguments = Some
          \<lparr>linesStartAt1 = None, columnsStartAt1 = None, pathFormat = Some ''path''\<rparr>\<rparr>
       (newResponse
          \<lparr>seq = 2, req_command = ''initialize'',
           req_arguments = Some
             \<lparr>linesStartAt1 = None, columnsStartAt1 = None, pathFormat = Some ''path''\<rparr>\<rparr>)
       (newDebugSession None None)
     = initializeRequest defaultHandlers
         \<lparr>request_seq = 2, success = True, command = ''initialize'',
          message = None, body = Some empty_body\<rparr>
         \<lparr>linesStartAt1 = None, columnsStartAt1 = None, pathFormat = Some ''path''\<rparr>
         (newDebugSession None None)"
    using initialize_path_format
      [of "\<lparr>seq = 2, req_command = ''initialize'',
            req_arguments = Some
              \<lparr>linesStartAt1 = None, columnsStartAt1 = None,
               pathFormat = Some ''path''\<rparr>\<rparr>"
          "\<lparr>linesStartAt1 = None, columnsStartAt1 = None, pathFormat = Some ''path''\<rparr>"
          defaultHandlers "newDebugSession None None"]
    by (simp add: newDebugSession_def)
  from uri path show ?thesis by simp
qed

text \<open>
  What the specification states fails at the first of these requests: the path format is not
  supported, and yet the client's line flag, true in a fresh session, is false afterwards.
\<close>

theorem initialize_flags_counterexample:
  "dispatchRequest defaultHandlers
       \<lparr>seq = 1, req_command = ''initialize'',
        req_arguments = Some
          \<lparr>linesStartAt1 = Some False, columnsStartAt1 = None, pathFormat = Some ''uri''\<rparr>\<rparr>
       (newDebugSession None None)
     = Returned ((newDebugSession None None)
         \<lparr>clientLinesStartAt1 := False,
          sent :=
            [\<lparr>request_seq = 1, success = False, command = ''initialize'',
              message = Some ''debug adapter only supports native paths'',
              body = Some (empty_body\<lparr>error := Some
                \<lparr>id' = 2018,
                 format = Some ''debug adapter only supports native paths'',
                 variables = None, showUser = None,
                 sendTelemetry = Some True\<rparr>\<rparr>)\<rparr>]\<rparr>)
   \<and> clientLinesStartAt1 (newDebugSession None None) = True
   \<and> clientLinesStartAt1 ((newDebugSession None None)
         \<lparr>clientLinesStartAt1 := False,
          sent :=
            [\<lparr>request_seq = 1, success = False, command = ''initialize'',
              message = Some ''debug adapter only supports native paths'',
              body = Some (empty_body\<lparr>error := Some
                \<lparr>id' = 2018,
                 format = Some ''debug adapter only supports native paths'',
                 variables = None, showUser = None,
                 sendTelemetry = Some True\<rparr>\<rparr>)\<rparr>]\<rparr>) = False"
  using dispatch_initialize_unsupported
      [of "\<lparr>seq = 1, req_command = ''initialize'',
            req_arguments = Some
              \<lparr>linesStartAt1 = Some False, columnsStartAt1 = None,
               pathFormat = Some ''uri''\<rparr>\<rparr>"
          "\<lparr>linesStartAt1 = Some False, columnsStartAt1 = None, pathFormat = Some ''uri''\<rparr>"
          defaultHandlers "newDebugSession None None"]
  by (simp add: newDebugSession_def)

text \<open>
  The handlers of \<^verbatim>\<open>DebugSession\<close> itself keep to what is asked of a handler, on every
  request.
\<close>

lemma default_sendsOnceOrThrows:
  "sendsOnceOrThrows (dispatchRequest_try defaultHandlers request (newResponse request) st) st"
proof (cases "req_command request \<in> set recognizedCommands")
  case False
  show ?thesis
    by (simp add: try_unrecognized [OF False] defaultHandlers_def
        DebugSession_customRequest_def sendErrorResponse_plain sendsOnceOrThrows_def
        sendResponse_def)
next
  case True
  show ?thesis
  proof (cases "req_command request = ''initialize''")
    case init: True
    show ?thesis
    proof (cases "req_arguments request")
      case None
      with init show ?thesis
        by (simp add: dispatchRequest_try_def sendsOnceOrThrows_def cannotReadProperty_Thrown)
    next
      case (Some args)
      show ?thesis
        by (simp add: try_initialize [OF init Some] sendErrorResponse_plain
            sendsOnceOrThrows_def sendResponse_def defaultHandlers_def
            DebugSession_initializeRequest_def Let_def)
    qed
  next
    case False
    with True have "req_command request \<in> set (tl recognizedCommands)"
      by (simp add: recognizedCommands_def)
    from try_default_plain [OF this] show ?thesis
      by (simp add: sendsOnceOrThrows_def sendResponse_def shutdown_def)
  qed
qed

text \<open>A call that keeps to it leaves the dispatcher with exactly one more response sent.\<close>

lemma sendsOnceOrThrows_one_response:
  assumes "sendsOnceOrThrows (dispatchRequest_try h request (newResponse request) st) st"
  shows "\<exists>r st'. dispatchRequest h request st = Returned st' \<and> sent st' = sent st @ [r]"
proof (cases "dispatchRequest_try h request (newResponse request) st")
  case (Returned x)
  obtain r1 st1 where x: "x = (r1, st1)" by (cases x)
  with Returned assms have "sent st1 \<noteq> []" "butlast (sent st1) = sent st"
    by (simp_all add: sendsOnceOrThrows_def)
  then have "sent st1 = sent st @ [last (sent st1)]"
    using append_butlast_last_id [of "sent st1"] by simp
  with Returned x show ?thesis
    by (auto simp: dispatchRequest_def)
next
  case (Threw e x)
  obtain r1 st1 where x: "x = (r1, st1)" by (cases x)
  with Threw assms have e: "e \<noteq> ThrownNullish" and same: "sent st1 = sent st"
    by (simp_all add: sendsOnceOrThrows_def)
  from e obtain m s where "e = Thrown m s" by (cases e) simp_all
  with Threw x dispatchRequest_Threw [of h request st m s r1 st1] same
  show ?thesis by (simp add: sendResponse_def)
qed

text \<open>
  C4, amended. With the handlers of \<^verbatim>\<open>DebugSession\<close> itself, dispatching a request with
  one of the recognized command names (for \<open>initialize\<close>: with arguments whose
  \<open>pathFormat\<close> is \<open>path\<close>) returns and sends exactly one response, whose \<open>success\<close> is
  true and whose \<open>request_seq\<close> and \<open>command\<close> are the request's. Whatever the handlers
  are, a request produces exactly one response when the handler call (the \<^verbatim>\<open>try\<close> block,
  for \<open>launch\<close> the call of \<^verbatim>\<open>launchRequest\<close>) sends exactly one response and returns, or
  throws a value other than \<^verbatim>\<open>null\<close> and \<^verbatim>\<open>undefined\<close> before anything is sent. The
  handlers of \<^verbatim>\<open>DebugSession\<close> itself always do, so with them every request whatsoever
  produces exactly one response, correlated to the request.
\<close>

theorem one_response_per_request:
  "(req_command request \<in> set recognizedCommands
      \<and> (req_command request = ''initialize'' \<longrightarrow>
           (\<exists>a. req_arguments request = Some a \<and> pathFormat a = Some ''path'')) \<longrightarrow>
    (\<exists>r st'. dispatchRequest defaultHandlers request st = Returned st'
        \<and> sent st' = sent st @ [r] \<and> success r = True
        \<and> request_seq r = seq request \<and> command r = req_command request))
   \<and> (sendsOnceOrThrows (dispatchRequest_try h request (newResponse request) st) st \<longrightarrow>
        (\<exists>r st'. dispatchRequest h request st = Returned st' \<and> sent st' = sent st @ [r]))
   \<and> (req_command request = ''launch''
        \<and> sendsOnceOrThrows
             (launchRequest h (newResponse request) (req_arguments request) st) st \<longrightarrow>
        (\<exists>r st'. dispatchRequest h request st = Returned st' \<and> sent st' = sent st @ [r]))
   \<and> sendsOnceOrThrows
        (dispatchRequest_try defaultHandlers request (newResponse request) st) st
   \<and> (\<exists>r st'. dispatchRequest defaultHandlers request st = Returned st'
        \<and> sent st' = sent st @ [r]
        \<and> request_seq r = seq request \<and> command r = req_command request)"
proof (intro conjI impI)
  assume a: "req_command request \<in> set recognizedCommands
      \<and> (req_command request = ''initialize'' \<longrightarrow>
           (\<exists>a. req_arguments request = Some a \<and> pathFormat a = Some ''path''))"
  show "\<exists>r st'. dispatchRequest defaultHandlers request st = Returned st'
        \<and> sent st' = sent st @ [r] \<and> success r = True
        \<and> request_seq r = seq request \<and> command r = req_command request"
  proof (cases "req_command request = ''initialize''")
    case True
    with a obtain args
      where "req_arguments request = Some args" "pathFormat args = Some ''path''"
      by blast
    from default_initialize [OF True this, of st] True show ?thesis by simp
  next
    case False
    with a have "req_command request \<in> set (tl recognizedCommands)"
      by (simp add: recognizedCommands_def)
    from default_plain [OF this, of st] show ?thesis
      by (simp add: shutdown_def)
  qed
next
  assume "sendsOnceOrThrows (dispatchRequest_try h request (newResponse request) st) st"
  then show "\<exists>r st'. dispatchRequest h request st = Returned st' \<and> sent st' = sent st @ [r]"
    by (rule sendsOnceOrThrows_one_response)
next
  assume "req_command request = ''launch''
        \<and> sendsOnceOrThrows
             (launchRequest h (newResponse request) (req_arguments request) st) st"
  then have "sendsOnceOrThrows (dispatchRequest_try h request (newResponse request) st) st"
    by (simp add: dispatchRequest_try_def)
  then show "\<exists>r st'. dispatchRequest h request st = Returned st' \<and> sent st' = sent st @ [r]"
    by (rule sendsOnceOrThrows_one_response)
next
  show "sendsOnceOrThrows
        (dispatchRequest_try defaultHandlers request (newResponse request) st) st"
    by (rule default_sendsOnceOrThrows)
next
  show "\<exists>r st'. dispatchRequest defaultHandlers request st = Returned st'
        \<and> sent st' = sent st @ [r]
        \<and> request_seq r = seq request \<and> command r = req_command request"
  proof (cases "req_command request \<in> set recognizedCommands")
    case False
    from dispatch_unrecognized [OF False, of st] show ?thesis by simp
  next
    case True
    show ?thesis
    proof (cases "req_command request = ''initialize''")
      case init: True
      show ?thesis
      proof (cases "req_arguments request")
        case None
        with init have "dispatchRequest_try defaultHandlers request (newResponse request) st =
            Threw (cannotReadProperty ''linesStartAt1'') (newResponse request, st)"
          by (simp add: dispatchRequest_try_def)
        from dispatchRequest_Threw [OF this [unfolded cannotReadProperty_Thrown]]
        show ?thesis
          by (simp add: sendResponse_def newResponse_def)
      next
        case (Some args)
        show ?thesis
        proof (cases "pathFormat args = Some ''path''")
          case True
          from default_initialize [OF init Some True, of st] init show ?thesis by simp
        next
          case False
          from dispatch_initialize_unsupported [OF init Some False, of defaultHandlers st] init
          show ?thesis by simp
        qed
      qed
    next
      case False
      with True have "req_command request \<in> set (tl recognizedCommands)"
        by (simp add: recognizedCommands_def)
      from default_plain [OF this, of st] show ?thesis
        by (simp add: shutdown_def)
    qed
  qed
qed

text \<open>
  The theorem at an \<open>initialize\<close> request with \<open>pathFormat\<close> \<open>path\<close> and sequence
  number 7, sent to a fresh session, and at a \<open>launch\<close> request to a session whose
  \<open>launch\<close> handler throws an error before it sends.
\<close>

theorem one_response_per_request_witness:
  "''initialize'' \<in> set recognizedCommands
   \<and> pathFormat \<lparr>linesStartAt1 = None, columnsStartAt1 = None, pathFormat = Some ''path''\<rparr>
       = Some ''path''
   \<and> (\<exists>r st'.
        dispatchRequest defaultHandlers
          \<lparr>seq = 7, req_command = ''initialize'',
           req_arguments = Some
             \<lparr>linesStartAt1 = None, columnsStartAt1 = None, pathFormat = Some ''path''\<rparr>\<rparr>
          (newDebugSession None None) = Returned st'
        \<and> sent st' = [r] \<and> success r = True \<and> request_seq r = 7
        \<and> command r = ''initialize'')
   \<and> sendsOnceOrThrows
        (launchRequest
           (defaultHandlers\<lparr>launchRequest :=
              \<lambda>response args st.
                Threw (Thrown (Str ''boom'') (Str ''Error: boom'')) (response, st)\<rparr>)
           (newResponse \<lparr>seq = 3, req_command = ''launch'', req_arguments = None\<rparr>)
           None (newDebugSession None None))
        (newDebugSession None None)
   \<and> (\<exists>r st'.
        dispatchRequest
          (defaultHandlers\<lparr>launchRequest :=
             \<lambda>response args st.
               Threw (Thrown (Str ''boom'') (Str ''Error: boom'')) (response, st)\<rparr>)
          \<lparr>seq = 3, req_command = ''launch'', req_arguments = None\<rparr>
          (newDebugSession None None) = Returned st'
        \<and> sent st' = [r])"
proof -
  have rec: "''initialize'' \<in> set recognizedCommands"
    by (simp add: recognizedCommands_def)
  have once: "sendsOnceOrThrows
        (launchRequest
           (defaultHandlers\<lparr>launchRequest :=
              \<lambda>response args st.
                Threw (Thrown (Str ''boom'') (Str ''Error: boom'')) (response, st)\<rparr>)
           (newResponse \<lparr>seq = 3, req_command = ''launch'', req_arguments = None\<rparr>)
           None (newDebugSession None None))
        (newDebugSession None None)"
    by (simp add: sendsOnceOrThrows_def)
  from rec once
    one_response_per_request
      [where request = "\<lparr>seq = 7, req_command = ''initialize'',
            req_arguments = Some
              \<lparr>linesStartAt1 = None, columnsStartAt1 = None,
               pathFormat = Some ''path''\<rparr>\<rparr>"
         and st = "newDebugSession None None"]
    one_response_per_request
      [where request = "\<lparr>seq = 3, req_command = ''launch'', req_arguments = None\<rparr>"
         and st = "newDebugSession None None"
         and h = "defaultHandlers\<lparr>launchRequest :=
             \<lambda>response args st.
               Threw (Thrown (Str ''boom'') (Str ''Error: boom'')) (response, st)\<rparr>"]
  show ?thesis by (simp add: newDebugSession_def)
qed

text \<open>
  What the specification states fails for a handler that returns without sending, which
  the dispatcher does not make up for, and for a handler that throws \<^verbatim>\<open>null\<close>: in both
  cases no response has been sent when the dispatcher is done.
\<close>

theorem one_response_per_request_counterexample:
  "dispatchRequest
     (defaultHandlers\<lparr>launchRequest := \<lambda>response args st. Returned (response, st)\<rparr>)
     \<lparr>seq = 3, req_command = ''launch'', req_arguments = None\<rparr>
     (newDebugSession None None)
   = Returned (newDebugSession None None)
   \<and> dispatchRequest
       (defaultHandlers\<lparr>launchRequest :=
          \<lambda>response args st. Threw ThrownNullish (response, st)\<rparr>)
       \<lparr>seq = 3, req_command = ''launch'', req_arguments = None\<rparr>
       (newDebugSession None None)
     = Threw (cannotReadProperty ''message'') (newDebugSession None None)
   \<and> sent (newDebugSession None None) = []"
  by (simp add: dispatchRequest_def dispatchRequest_try_def newDebugSession_def)

text \<open>
  C5, amended. The \<^verbatim>\<open>try\<close> block of the dispatcher is the call of the handler (shown for
  \<open>launch\<close>, the other commands are alike). When it throws a value other than \<^verbatim>\<open>null\<close>
  and \<^verbatim>\<open>undefined\<close>, the dispatcher returns: it has caught the value and sent exactly one
  more response, on the response object as the handler left it, with \<open>success\<close> false
  and an error message with id 1104 that is flagged for telemetry and not for the user.
  The variables of that message, a plain object, hold \<^verbatim>\<open>e.message\<close> as \<open>_exception\<close> and
  \<^verbatim>\<open>e.stack\<close> as \<open>_stack\<close>. A stack that is a non-empty string is the text of
  \<open>response.message\<close>, which is rendered with redaction switched on, and a message that
  is a non-empty string is what \<open>{_exception}\<close> renders to under redaction; a stack that
  is empty or undefined leaves the literal \<open>{_stack}\<close> as the text.
\<close>

theorem dispatchRequest_catches:
  "(req_command request = ''launch'' \<longrightarrow>
      dispatchRequest_try h request (newResponse request) st =
        launchRequest h (newResponse request) (req_arguments request) st)
   \<and> (dispatchRequest_try h request (newResponse request) st = Threw (Thrown m s) (r, st1)
        \<longrightarrow>
      (\<exists>resp b msg vars.
         dispatchRequest h request st = Returned (st1\<lparr>sent := sent st1 @ [resp]\<rparr>)
         \<and> success resp = False
         \<and> request_seq resp = request_seq r \<and> command resp = command r
         \<and> body resp = Some b \<and> error b = Some msg
         \<and> id' msg = 1104 \<and> sendTelemetry msg = Some True \<and> showUser msg = None
         \<and> format msg = Some ''{_stack}''
         \<and> variables msg = Some vars
         \<and> inheritsObjectPrototype vars
         \<and> own vars ''_exception'' = Some m
         \<and> own vars ''_stack'' = Some s
         \<and> own vars ''hasOwnProperty'' = None
         \<and> (s = Str t \<and> t \<noteq> [] \<longrightarrow>
              message resp = Some t
              \<and> formatPII (Some ''{_stack}'') True (variables msg) = Inr t)
         \<and> (s = Undefined \<or> s = Str [] \<longrightarrow> message resp = Some ''{_stack}'')
         \<and> (m = Str u \<and> u \<noteq> [] \<longrightarrow>
              formatPII (Some ''{_exception}'') True (variables msg) = Inr u)))"
proof (intro conjI impI)
  assume "req_command request = ''launch''"
  then show "dispatchRequest_try h request (newResponse request) st =
        launchRequest h (newResponse request) (req_arguments request) st"
    by (simp add: dispatchRequest_try_def)
next
  assume threw:
    "dispatchRequest_try h request (newResponse request) st = Threw (Thrown m s) (r, st1)"
  define vars where "vars = objectLiteral [''_exception'' \<mapsto> m, ''_stack'' \<mapsto> s]"
  define msg where "msg =
     \<lparr>id' = 1104, format = Some ''{_stack}'', variables = Some vars,
      showUser = None, sendTelemetry = Some True\<rparr>"
  define b where "b = (case body r of None \<Rightarrow> empty_body | Some b \<Rightarrow> b)\<lparr>error := Some msg\<rparr>"
  define resp where "resp =
     r\<lparr>success := False,
       message := Some (case s of
                          Str t \<Rightarrow> if t = [] then ''{_stack}'' else t
                        | Undefined \<Rightarrow> ''{_stack}''),
       body := Some b\<rparr>"
  have "dispatchRequest h request st = Returned (st1\<lparr>sent := sent st1 @ [resp]\<rparr>)"
    using dispatchRequest_Threw [OF threw]
    by (simp add: sendResponse_def resp_def b_def msg_def vars_def)
  moreover have "success resp = False" "body resp = Some b" "error b = Some msg"
    "request_seq resp = request_seq r" "command resp = command r"
    by (simp_all add: resp_def b_def)
  moreover have "id' msg = 1104" "sendTelemetry msg = Some True" "showUser msg = None"
    "format msg = Some ''{_stack}''" "variables msg = Some vars"
    by (simp_all add: msg_def)
  moreover have "inheritsObjectPrototype vars" "own vars ''_exception'' = Some m"
    "own vars ''_stack'' = Some s" "own vars ''hasOwnProperty'' = None"
    by (simp_all add: vars_def objectLiteral_def)
  moreover have "s = Str t \<and> t \<noteq> [] \<longrightarrow>
      message resp = Some t \<and> formatPII (Some ''{_stack}'') True (variables msg) = Inr t"
    by (simp add: resp_def msg_def vars_def formatPII_stack)
  moreover have "s = Undefined \<or> s = Str [] \<longrightarrow> message resp = Some ''{_stack}''"
    by (auto simp: resp_def)
  moreover have "m = Str u \<and> u \<noteq> [] \<longrightarrow>
      formatPII (Some ''{_exception}'') True (variables msg) = Inr u"
    by (simp add: msg_def vars_def formatPII_exception)
  ultimately show "\<exists>resp b msg vars.
         dispatchRequest h request st = Returned (st1\<lparr>sent := sent st1 @ [resp]\<rparr>)
         \<and> success resp = False
         \<and> request_seq resp = request_seq r \<and> command resp = command r
         \<and> body resp = Some b \<and> error b = Some msg
         \<and> id' msg = 1104 \<and> sendTelemetry msg = Some True \<and> showUser msg = None
         \<and> format msg = Some ''{_stack}''
         \<and> variables msg = Some vars
         \<and> inheritsObjectPrototype vars
         \<and> own vars ''_exception'' = Some m
         \<and> own vars ''_stack'' = Some s
         \<and> own vars ''hasOwnProperty'' = None
         \<and> (s = Str t \<and> t \<noteq> [] \<longrightarrow>
              message resp = Some t
              \<and> formatPII (Some ''{_stack}'') True (variables msg) = Inr t)
         \<and> (s = Undefined \<or> s = Str [] \<longrightarrow> message resp = Some ''{_stack}'')
         \<and> (m = Str u \<and> u \<noteq> [] \<longrightarrow>
              formatPII (Some ''{_exception}'') True (variables msg) = Inr u)"
    by blast
qed

text \<open>
  The theorem at a session whose \<open>launch\<close> handler throws an error with the message
  \<open>boom\<close>: the one response that goes out has the stack trace as its message.
\<close>

theorem dispatchRequest_catches_witness:
  "req_command \<lparr>seq = 3, req_command = ''launch'', req_arguments = None\<rparr> = ''launch''
   \<and> dispatchRequest_try
       (defaultHandlers\<lparr>launchRequest :=
          \<lambda>response args st.
            Threw (Thrown (Str ''boom'') (Str ''Error: boom'')) (response, st)\<rparr>)
       \<lparr>seq = 3, req_command = ''launch'', req_arguments = None\<rparr>
       (newResponse \<lparr>seq = 3, req_command = ''launch'', req_arguments = None\<rparr>)
       (newDebugSession None None)
     = Threw (Thrown (Str ''boom'') (Str ''Error: boom''))
         (newResponse \<lparr>seq = 3, req_command = ''launch'', req_arguments = None\<rparr>,
          newDebugSession None None)
   \<and> ''Error: boom'' \<noteq> [] \<and> ''boom'' \<noteq> []
   \<and> (\<exists>resp b msg.
        dispatchRequest
          (defaultHandlers\<lparr>launchRequest :=
             \<lambda>response args st.
               Threw (Thrown (Str ''boom'') (Str ''Error: boom'')) (response, st)\<rparr>)
          \<lparr>seq = 3, req_command = ''launch'', req_arguments = None\<rparr>
          (newDebugSession None None)
        = Returned ((newDebugSession None None)\<lparr>sent := [resp]\<rparr>)
        \<and> success resp = False \<and> request_seq resp = 3
        \<and> message resp = Some ''Error: boom''
        \<and> body resp = Some b \<and> error b = Some msg \<and> id' msg = 1104
        \<and> sendTelemetry msg = Some True
        \<and> formatPII (Some ''{_exception}'') True (variables msg) = Inr ''boom'')"
proof -
  have threw: "dispatchRequest_try
       (defaultHandlers\<lparr>launchRequest :=
          \<lambda>response args st.
            Threw (Thrown (Str ''boom'') (Str ''Error: boom'')) (response, st)\<rparr>)
       \<lparr>seq = 3, req_command = ''launch'', req_arguments = None\<rparr>
       (newResponse \<lparr>seq = 3, req_command = ''launch'', req_arguments = None\<rparr>)
       (newDebugSession None None)
     = Threw (Thrown (Str ''boom'') (Str ''Error: boom''))
         (newResponse \<lparr>seq = 3, req_command = ''launch'', req_arguments = None\<rparr>,
          newDebugSession None None)"
    by (simp add: dispatchRequest_try_def)
  from threw
    dispatchRequest_catches
      [where request = "\<lparr>seq = 3, req_command = ''launch'', req_arguments = None\<rparr>"
         and h = "defaultHandlers\<lparr>launchRequest :=
             \<lambda>response args st.
               Threw (Thrown (Str ''boom'') (Str ''Error: boom'')) (response, st)\<rparr>"
         and st = "newDebugSession None None"
         and m = "Str ''boom''" and s = "Str ''Error: boom''"
         and t = "''Error: boom''" and u = "''boom''"
         and r = "newResponse \<lparr>seq = 3, req_command = ''launch'', req_arguments = None\<rparr>"
         and ?st1.0 = "newDebugSession None None"]
  obtain resp b msg vars where
    "dispatchRequest
          (defaultHandlers\<lparr>launchRequest :=
             \<lambda>response args st.
               Threw (Thrown (Str ''boom'') (Str ''Error: boom'')) (response, st)\<rparr>)
          \<lparr>seq = 3, req_command = ''launch'', req_arguments = None\<rparr>
          (newDebugSession None None)
        = Returned ((newDebugSession None None)
            \<lparr>sent := sent (newDebugSession None None) @ [resp]\<rparr>)"
    "success resp = False"
    "request_seq resp =
       request_seq (newResponse \<lparr>seq = 3, req_command = ''launch'', req_arguments = None\<rparr>)"
    "message resp = Some ''Error: boom''"
    "body resp = Some b" "error b = Some msg" "id' msg = 1104"
    "sendTelemetry msg = Some True"
    "formatPII (Some ''{_exception}'') True (variables msg) = Inr ''boom''"
    by auto
  then have "dispatchRequest
          (defaultHandlers\<lparr>launchRequest :=
             \<lambda>response args st.
               Threw (Thrown (Str ''boom'') (Str ''Error: boom'')) (response, st)\<rparr>)
          \<lparr>seq = 3, req_command = ''launch'', req_arguments = None\<rparr>
          (newDebugSession None None)
        = Returned ((newDebugSession None None)\<lparr>sent := [resp]\<rparr>)
        \<and> success resp = False \<and> request_seq resp = 3
        \<and> message resp = Some ''Error: boom''
        \<and> body resp = Some b \<and> error b = Some msg \<and> id' msg = 1104
        \<and> sendTelemetry msg = Some True
        \<and> formatPII (Some ''{_exception}'') True (variables msg) = Inr ''boom''"
    by (simp add: newDebugSession_def newResponse_def)
  then have "\<exists>resp b msg.
        dispatchRequest
          (defaultHandlers\<lparr>launchRequest :=
             \<lambda>response args st.
               Threw (Thrown (Str ''boom'') (Str ''Error: boom'')) (response, st)\<rparr>)
          \<lparr>seq = 3, req_command = ''launch'', req_arguments = None\<rparr>
          (newDebugSession None None)
        = Returned ((newDebugSession None None)\<lparr>sent := [resp]\<rparr>)
        \<and> success resp = False \<and> request_seq resp = 3
        \<and> message resp = Some ''Error: boom''
        \<and> body resp = Some b \<and> error b = Some msg \<and> id' msg = 1104
        \<and> sendTelemetry msg = Some True
        \<and> formatPII (Some ''{_exception}'') True (variables msg) = Inr ''boom''"
    by blast
  with threw show ?thesis by simp
qed

text \<open>
  What the specification states fails in two places. A \<open>launch\<close> handler that throws
  \<^verbatim>\<open>null\<close> makes the \<^verbatim>\<open>catch\<close> clause itself throw when it reads \<^verbatim>\<open>e.message\<close>: a TypeError
  leaves the dispatcher and nothing is sent. And for an error with an empty message, as
  \<^verbatim>\<open>new Error()\<close> has it, the variable \<open>_exception\<close> is the empty string, which the
  formatter does not substitute: \<open>{_exception}\<close> stays the literal token.
\<close>

theorem dispatchRequest_catches_counterexample:
  "dispatchRequest
     (defaultHandlers\<lparr>launchRequest :=
        \<lambda>response args st. Threw ThrownNullish (response, st)\<rparr>)
     \<lparr>seq = 3, req_command = ''launch'', req_arguments = None\<rparr>
     (newDebugSession None None)
   = Threw (cannotReadProperty ''message'') (newDebugSession None None)
   \<and> sent (newDebugSession None None) = []
   \<and> dispatchRequest
       (defaultHandlers\<lparr>launchRequest :=
          \<lambda>response args st. Threw (Thrown (Str '''') (Str ''Error'')) (response, st)\<rparr>)
       \<lparr>seq = 3, req_command = ''launch'', req_arguments = None\<rparr>
       (newDebugSession None None)
     = Returned ((newDebugSession None None)\<lparr>sent :=
         [\<lparr>request_seq = 3, success = False, command = ''launch'',
           message = Some ''Error'',
           body = Some (empty_body\<lparr>error := Some
             \<lparr>id' = 1104, format = Some ''{_stack}'',
              variables = Some (objectLiteral
                [''_exception'' \<mapsto> Str '''', ''_stack'' \<mapsto> Str ''Error'']),
              showUser = None, sendTelemetry = Some True\<rparr>\<rparr>)\<rparr>]\<rparr>)
   \<and> formatPII (Some ''{_exception}'') True
        (Some (objectLiteral [''_exception'' \<mapsto> Str '''', ''_stack'' \<mapsto> Str ''Error'']))
       = Inr ''{_exception}''
   \<and> formatPII (Some ''{_exception}'') True
        (Some (objectLiteral [''_exception'' \<mapsto> Str '''', ''_stack'' \<mapsto> Str ''Error'']))
       \<noteq> Inr ''''"
proof -
  have null: "dispatchRequest
     (defaultHandlers\<lparr>launchRequest :=
        \<lambda>response args st. Threw ThrownNullish (response, st)\<rparr>)
     \<lparr>seq = 3, req_command = ''launch'', req_arguments = None\<rparr>
     (newDebugSession None None)
   = Threw (cannotReadProperty ''message'') (newDebugSession None None)"
    by (simp add: dispatchRequest_def dispatchRequest_try_def)
  have "dispatchRequest_try
       (defaultHandlers\<lparr>launchRequest :=
          \<lambda>response args st. Threw (Thrown (Str '''') (Str ''Error'')) (response, st)\<rparr>)
       \<lparr>seq = 3, req_command = ''launch'', req_arguments = None\<rparr>
       (newResponse \<lparr>seq = 3, req_command = ''launch'', req_arguments = None\<rparr>)
       (newDebugSession None None)
     = Threw (Thrown (Str '''') (Str ''Error''))
         (newResponse \<lparr>seq = 3, req_command = ''launch'', req_arguments = None\<rparr>,
          newDebugSession None None)"
    by (simp add: dispatchRequest_try_def)
  from dispatchRequest_Threw [OF this]
  have empty: "dispatchRequest
       (defaultHandlers\<lparr>launchRequest :=
          \<lambda>response args st. Threw (Thrown (Str '''') (Str ''Error'')) (response, st)\<rparr>)
       \<lparr>seq = 3, req_command = ''launch'', req_arguments = None\<rparr>
       (newDebugSession None None)
     = Returned ((newDebugSession None None)\<lparr>sent :=
         [\<lparr>request_seq = 3, success = False, command = ''launch'',
           message = Some ''Error'',
           body = Some (empty_body\<lparr>error := Some
             \<lparr>id' = 1104, format = Some ''{_stack}'',
              variables = Some (objectLiteral
                [''_exception'' \<mapsto> Str '''', ''_stack'' \<mapsto> Str ''Error'']),
              showUser = None, sendTelemetry = Some True\<rparr>\<rparr>)\<rparr>]\<rparr>)"
    by (simp add: sendResponse_def newResponse_def newDebugSession_def)
  from null empty show ?thesis
    by (simp add: formatPII_exception newDebugSession_def)
qed

text \<open>
  C6. With the default \<^verbatim>\<open>customRequest\<close>, dispatching a request whose command is none of
  the recognized names returns and sends exactly one response: \<open>success\<close> is false, and
  the error message in its body has id 1014, the text \<open>unrecognized request\<close> and the
  telemetry flag, and no flag for the user.
\<close>

theorem unrecognized_request:
  assumes "req_command request \<notin> set recognizedCommands"
  shows "dispatchRequest defaultHandlers request st =
     Returned (st\<lparr>sent := sent st @
       [\<lparr>request_seq = seq request, success = False, command = req_command request,
         message = Some ''unrecognized request'',
         body = Some (empty_body\<lparr>error := Some
           \<lparr>id' = 1014, format = Some ''unrecognized request'', variables = None,
            showUser = None, sendTelemetry = Some True\<rparr>\<rparr>)\<rparr>]\<rparr>)"
proof -
  have "dispatchRequest_try defaultHandlers request (newResponse request) st =
     DebugSession_customRequest (req_command request) (newResponse request)
       (req_arguments request) st"
    by (simp add: try_unrecognized [OF assms] defaultHandlers_def)
  also have "\<dots> =
     sendErrorResponse (newResponse request) (Code 1014) (Some ''unrecognized request'') None
       (Some Telemetry) st"
    by (simp add: DebugSession_customRequest_def)
  finally show ?thesis
    by (simp add: dispatchRequest_def sendErrorResponse_plain sendResponse_def
        newResponse_def)
qed

text \<open>The theorem at the command \<open>restartFrame\<close>, which the dispatcher does not know.\<close>

theorem unrecognized_request_witness:
  "''restartFrame'' \<notin> set recognizedCommands
   \<and> dispatchRequest defaultHandlers
       \<lparr>seq = 12, req_command = ''restartFrame'', req_arguments = None\<rparr>
       (newDebugSession None None)
     = Returned ((newDebugSession None None)\<lparr>sent :=
         [\<lparr>request_seq = 12, success = False, command = ''restartFrame'',
           message = Some ''unrecognized request'',
           body = Some (empty_body\<lparr>error := Some
             \<lparr>id' = 1014, format = Some ''unrecognized request'', variables = None,
              showUser = None, sendTelemetry = Some True\<rparr>\<rparr>)\<rparr>]\<rparr>)"
proof -
  have h: "req_command \<lparr>seq = 12, req_command = ''restartFrame'', req_arguments = None\<rparr>
      \<notin> set recognizedCommands"
    by (simp add: recognizedCommands_def)
  from h unrecognized_request [OF h, of "newDebugSession None None"]
  show ?thesis by (simp add: newDebugSession_def)
qed

text \<open>
  C9. With the handlers of \<^verbatim>\<open>DebugSession\<close> itself, dispatching an \<open>initialize\<close> request
  with \<open>pathFormat\<close> \<open>path\<close> returns, and afterwards each of the client's two numbering
  flags is the boolean the arguments gave for it, or what it was before when the
  arguments gave none; the debugger's flags are as before. So with \<open>linesStartAt1\<close>
  false the client's lines are 0-based, and on a session whose debugger lines are
  1-based \<^verbatim>\<open>convertDebuggerLineToClient(5)\<close> is 4.
\<close>

theorem initialize_lines_start_at_0:
  assumes "req_command request = ''initialize''" and "req_arguments request = Some args"
    and "pathFormat args = Some ''path''"
  shows "\<exists>st'. dispatchRequest defaultHandlers request st = Returned st'
     \<and> clientLinesStartAt1 st' =
         (case linesStartAt1 args of Some b \<Rightarrow> b | None \<Rightarrow> clientLinesStartAt1 st)
     \<and> clientColumnsStartAt1 st' =
         (case columnsStartAt1 args of Some b \<Rightarrow> b | None \<Rightarrow> clientColumnsStartAt1 st)
     \<and> debuggerLinesStartAt1 st' = debuggerLinesStartAt1 st
     \<and> debuggerColumnsStartAt1 st' = debuggerColumnsStartAt1 st
     \<and> (linesStartAt1 args = Some False \<longrightarrow> \<not> clientLinesStartAt1 st')
     \<and> (linesStartAt1 args = Some False \<and> debuggerLinesStartAt1 st \<longrightarrow>
          convertDebuggerLineToClient st' 5 = 4)"
  using default_initialize [OF assms, of st]
  by (auto simp: convertDebuggerLineToClient_def js_minus_exact)

text \<open>
  The theorem at a session constructed with 1-based debugger lines, and a request with
  \<open>linesStartAt1\<close> false and no \<open>columnsStartAt1\<close>.
\<close>

theorem initialize_lines_start_at_0_witness:
  "pathFormat \<lparr>linesStartAt1 = Some False, columnsStartAt1 = None, pathFormat = Some ''path''\<rparr>
     = Some ''path''
   \<and> debuggerLinesStartAt1 (newDebugSession (Some True) None)
   \<and> (\<exists>st'.
        dispatchRequest defaultHandlers
          \<lparr>seq = 1, req_command = ''initialize'',
           req_arguments = Some
             \<lparr>linesStartAt1 = Some False, columnsStartAt1 = None,
              pathFormat = Some ''path''\<rparr>\<rparr>
          (newDebugSession (Some True) None) = Returned st'
        \<and> \<not> clientLinesStartAt1 st'
        \<and> clientColumnsStartAt1 st'
        \<and> convertDebuggerLineToClient st' 5 = 4)"
proof -
  have dbg: "debuggerLinesStartAt1 (newDebugSession (Some True) None)"
    "clientColumnsStartAt1 (newDebugSession (Some True) None)"
    by (simp_all add: newDebugSession_def)
  from dbg
    initialize_lines_start_at_0
      [of "\<lparr>seq = 1, req_command = ''initialize'',
            req_arguments = Some
              \<lparr>linesStartAt1 = Some False, columnsStartAt1 = None,
               pathFormat = Some ''path''\<rparr>\<rparr>"
          "\<lparr>linesStartAt1 = Some False, columnsStartAt1 = None, pathFormat = Some ''path''\<rparr>"
          "newDebugSession (Some True) None"]
  show ?thesis by auto
qed

section \<open>Properties of the coordinate translator\<close>

text \<open>
  C7, amended. For every integer \<open>n\<close> with \<open>\<bar>n\<bar> < 2 ^ 53\<close> and every setting of the four
  flags, converting a line (or a column) to the client and back to the debugger, or the
  other way round, gives the number back. Where client and debugger agree on the base
  the converters are the identity; where the client is 1-based and the debugger 0-based,
  client to debugger subtracts exactly 1 and debugger to client adds exactly 1, and the
  other way round in the reverse case. Nothing is clamped: the equations hold for 0 and
  for negative numbers too.
\<close>

theorem convert_round_trip:
  assumes "\<bar>n\<bar> < 9007199254740992"
  shows "convertClientLineToDebugger st (convertDebuggerLineToClient st n) = n
   \<and> convertDebuggerLineToClient st (convertClientLineToDebugger st n) = n
   \<and> convertClientColumnToDebugger st (convertDebuggerColumnToClient st n) = n
   \<and> convertDebuggerColumnToClient st (convertClientColumnToDebugger st n) = n
   \<and> (clientLinesStartAt1 st = debuggerLinesStartAt1 st \<longrightarrow>
        convertClientLineToDebugger st n = n \<and> convertDebuggerLineToClient st n = n)
   \<and> (clientColumnsStartAt1 st = debuggerColumnsStartAt1 st \<longrightarrow>
        convertClientColumnToDebugger st n = n \<and> convertDebuggerColumnToClient st n = n)
   \<and> (clientLinesStartAt1 st \<and> \<not> debuggerLinesStartAt1 st \<longrightarrow>
        convertClientLineToDebugger st n = n - 1 \<and> convertDebuggerLineToClient st n = n + 1)
   \<and> (\<not> clientLinesStartAt1 st \<and> debuggerLinesStartAt1 st \<longrightarrow>
        convertClientLineToDebugger st n = n + 1 \<and> convertDebuggerLineToClient st n = n - 1)
   \<and> (clientColumnsStartAt1 st \<and> \<not> debuggerColumnsStartAt1 st \<longrightarrow>
        convertClientColumnToDebugger st n = n - 1
        \<and> convertDebuggerColumnToClient st n = n + 1)
   \<and> (\<not> clientColumnsStartAt1 st \<and> debuggerColumnsStartAt1 st \<longrightarrow>
        convertClientColumnToDebugger st n = n + 1
        \<and> convertDebuggerColumnToClient st n = n - 1)"
proof -
  from assms have up: "js_plus n 1 = n + 1" and down: "js_minus n 1 = n - 1"
    by (simp_all add: js_plus_exact js_minus_exact)
  from assms have trip: "js_minus (n + 1) 1 = n" "js_plus (n - 1) 1 = n"
    by (simp_all add: js_plus_exact js_minus_exact)
  show ?thesis
    by (simp add: convertClientLineToDebugger_def convertDebuggerLineToClient_def
        convertClientColumnToDebugger_def convertDebuggerColumnToClient_def up down trip)
qed

text \<open>
  The theorem at line and column 0 in three sessions: a fresh one (client 1-based,
  debugger 0-based), one constructed with a 1-based debugger (both 1-based), and that one
  after the client has asked for 0-based lines and columns.
\<close>

theorem convert_round_trip_witness:
  "\<bar>0 :: int\<bar> < 9007199254740992 \<and> \<bar>- 1 :: int\<bar> < 9007199254740992
   \<and> clientLinesStartAt1 (newDebugSession None None)
   \<and> \<not> debuggerLinesStartAt1 (newDebugSession None None)
   \<and> clientColumnsStartAt1 (newDebugSession None None)
   \<and> \<not> debuggerColumnsStartAt1 (newDebugSession None None)
   \<and> convertClientLineToDebugger (newDebugSession None None) 0 = - 1
   \<and> convertDebuggerLineToClient (newDebugSession None None) (- 1) = 0
   \<and> convertClientColumnToDebugger (newDebugSession None None) 0 = - 1
   \<and> convertDebuggerColumnToClient (newDebugSession None None) (- 1) = 0
   \<and> clientLinesStartAt1 (newDebugSession (Some True) None)
       = debuggerLinesStartAt1 (newDebugSession (Some True) None)
   \<and> clientColumnsStartAt1 (newDebugSession (Some True) None)
       = debuggerColumnsStartAt1 (newDebugSession (Some True) None)
   \<and> convertClientLineToDebugger (newDebugSession (Some True) None) 0 = 0
   \<and> convertDebuggerColumnToClient (newDebugSession (Some True) None) 0 = 0
   \<and> \<not> clientLinesStartAt1
         ((newDebugSession (Some True) None)
            \<lparr>clientLinesStartAt1 := False, clientColumnsStartAt1 := False\<rparr>)
   \<and> debuggerLinesStartAt1
         ((newDebugSession (Some True) None)
            \<lparr>clientLinesStartAt1 := False, clientColumnsStartAt1 := False\<rparr>)
   \<and> \<not> clientColumnsStartAt1
         ((newDebugSession (Some True) None)
            \<lparr>clientLinesStartAt1 := False, clientColumnsStartAt1 := False\<rparr>)
   \<and> debuggerColumnsStartAt1
         ((newDebugSession (Some True) None)
            \<lparr>clientLinesStartAt1 := False, clientColumnsStartAt1 := False\<rparr>)
   \<and> convertClientLineToDebugger
         ((newDebugSession (Some True) None)
            \<lparr>clientLinesStartAt1 := False, clientColumnsStartAt1 := False\<rparr>) 0 = 1
   \<and> convertDebuggerLineToClient
         ((newDebugSession (Some True) None)
            \<lparr>clientLinesStartAt1 := False, clientColumnsStartAt1 := False\<rparr>) 0 = - 1
   \<and> convertClientColumnToDebugger
         ((newDebugSession (Some True) None)
            \<lparr>clientLinesStartAt1 := False, clientColumnsStartAt1 := False\<rparr>) 0 = 1
   \<and> convertDebuggerColumnToClient
         ((newDebugSession (Some True) None)
            \<lparr>clientLinesStartAt1 := False, clientColumnsStartAt1 := False\<rparr>) 0 = - 1"
proof -
  have small: "\<bar>0 :: int\<bar> < 9007199254740992" "\<bar>- 1 :: int\<bar> < 9007199254740992"
    by simp_all
  have flags:
    "clientLinesStartAt1 (newDebugSession None None)"
    "\<not> debuggerLinesStartAt1 (newDebugSession None None)"
    "clientColumnsStartAt1 (newDebugSession None None)"
    "\<not> debuggerColumnsStartAt1 (newDebugSession None None)"
    "clientLinesStartAt1 (newDebugSession (Some True) None)"
    "debuggerLinesStartAt1 (newDebugSession (Some True) None)"
    "clientColumnsStartAt1 (newDebugSession (Some True) None)"
    "debuggerColumnsStartAt1 (newDebugSession (Some True) None)"
    by (simp_all add: newDebugSession_def)
  from flags
    convert_round_trip [OF small(1), of "newDebugSession None None"]
    convert_round_trip [OF small(2), of "newDebugSession None None"]
    convert_round_trip [OF small(1), of "newDebugSession (Some True) None"]
    convert_round_trip
      [OF small(1), of "(newDebugSession (Some True) None)
             \<lparr>clientLinesStartAt1 := False, clientColumnsStartAt1 := False\<rparr>"]
  show ?thesis by simp
qed

text \<open>
  What the specification states fails at \<open>n = 2 ^ 53\<close>, which is a double, in a fresh
  session (client 1-based, debugger 0-based): \<open>n + 1\<close> is no double and is rounded to
  \<open>n\<close>, so that debugger to client gives \<open>n\<close>, and client to debugger of that gives
  \<open>n - 1\<close>.
\<close>

theorem convert_round_trip_counterexample:
  "roundToDouble 9007199254740992 = 9007199254740992
   \<and> convertDebuggerLineToClient (newDebugSession None None) 9007199254740992
       = 9007199254740992
   \<and> convertClientLineToDebugger (newDebugSession None None) 9007199254740992
       = 9007199254740991
   \<and> convertClientLineToDebugger (newDebugSession None None)
        (convertDebuggerLineToClient (newDebugSession None None) 9007199254740992)
       \<noteq> 9007199254740992"
proof -
  have "bitlen (1 * 2 ^ 53) = bitlen 1 + int 53"
    by (rule bitlen_pow2) simp
  moreover have "bitlen 1 = 1"
    using bitlen_pow2 [of 1 0] by (simp add: bitlen_alt_def)
  ultimately have b53: "bitlen 9007199254740992 = 54" by simp
  have "\<not> bitlen 9007199254740993 \<le> 53"
    using bitlen_le_iff_power [of 9007199254740993 53] by simp
  moreover have "bitlen 9007199254740993 \<le> 54"
    using bitlen_le_iff_power [of 9007199254740993 54] by simp
  ultimately have b: "bitlen 9007199254740993 = 54" by simp
  have up: "js_plus 9007199254740992 1 = 9007199254740992"
    by (simp add: js_plus_def roundToDouble_def Let_def b)
  have down: "js_minus 9007199254740992 1 = 9007199254740991"
    by (simp add: js_minus_exact)
  show ?thesis
    by (simp add: convertDebuggerLineToClient_def convertClientLineToDebugger_def
        newDebugSession_def up down roundToDouble_exact)
qed

text \<open>
  Whatever \<^verbatim>\<open>encodeURI\<close> does: \<^verbatim>\<open>path2uri\<close> gives a path that does not start with a
  slash the URI of the same path behind a slash.
\<close>

lemma path2uri_prefixes_slash:
  assumes "str \<noteq> []" and "hd str \<noteq> CHR ''/''" and "hd str \<noteq> CHR 0x5C"
  shows "path2uri encodeURI str = path2uri encodeURI (CHR ''/'' # str)"
  using assms by (cases str) (simp_all add: path2uri_def)

end
